theory Spec2Isabelle
  imports Complex_Main "HOL-Library.AList" "HOL-Library.Sublist"
begin

section \<open>Values of the program\<close>

text \<open>
  The program is a Streamlit page over a pandas table. A cell of a table is a Python
  string (a column of dtype object read from CSV text), an integer (int64) or a float
  (float64). A float is modelled as the real number it is; where the program divides or
  multiplies floats, the result is rounded as binary floating point rounds it (\<open>float64\<close>
  below). Infinities are outside this model, and a missing float (NaN) is written as
  \<open>None\<close> where the program can produce one.

  A table is the ordered list of its columns, each a name with its cells. \<open>df[c]\<close> of
  the source is \<open>map_of df c\<close>, \<open>c in df.columns\<close> is \<open>c \<in> set (map fst df)\<close>, and
  the assignment \<open>df[c] = v\<close> is \<open>AList.update c v df\<close>.
\<close>

datatype cell = CStr string | CInt int | CFloat real

type_synonym series = "cell list"

type_synonym dataframe = "(string \<times> series) list"

text \<open>
  The exceptions the modelled code can raise. Each carries a text that names what it is
  about (for the ValueError of \<open>float\<close>, the string that did not read). The wording of
  Python's messages is not modelled.
\<close>

datatype py_error =
    ValueError string | KeyError string | TypeError string | ParserError string
  | ZeroDivisionError string

definition len_df :: "dataframe \<Rightarrow> nat" where
  \<comment> \<open>\<open>len(df)\<close>: the number of rows\<close>
  "len_df df = (case df of [] \<Rightarrow> 0 | (_, col) # _ \<Rightarrow> length col)"

definition cell_num :: "cell \<Rightarrow> real option" where
  \<comment> \<open>the number in a cell; a string holds none\<close>
  "cell_num c = (case c of CInt i \<Rightarrow> Some (of_int i) | CFloat x \<Rightarrow> Some x | CStr s \<Rightarrow> None)"

subsection \<open>Python's \<open>str\<close> on integers\<close>

definition digit_char :: "nat \<Rightarrow> char" where
  "digit_char d = ''0123456789'' ! d"

fun str_nat :: "nat \<Rightarrow> string" where
  "str_nat n = (if n < 10 then [digit_char n] else str_nat (n div 10) @ [digit_char (n mod 10)])"

declare str_nat.simps [simp del]

definition str_int :: "int \<Rightarrow> string" where
  "str_int i = (if i < 0 then CHR ''-'' # str_nat (nat (- i)) else str_nat (nat i))"

subsection \<open>The three passes of \<open>astype(str).str.replace('%', '').astype(float)\<close>\<close>

text \<open>
  \<open>astype(str)\<close> leaves a string as it is and writes a number with \<open>str\<close>. Python's
  \<open>str\<close> of a float (the shortest text that reads back as the same float) is a library
  function outside the source: it is the parameter \<open>fs\<close>.
\<close>

fun astype_str :: "(real \<Rightarrow> string) \<Rightarrow> cell \<Rightarrow> string" where
  "astype_str fs (CStr s) = s"
| "astype_str fs (CInt i) = str_int i"
| "astype_str fs (CFloat x) = fs x"

text \<open>
  \<open>str.replace(old, new)\<close>: every occurrence of \<open>old\<close>, scanning from the left without
  overlap, becomes \<open>new\<close>; an empty \<open>old\<close> matches before every character and at the
  end. (The pattern \<open>%\<close> has no special meaning as a regular expression, so the pandas
  versions that read the pattern as one agree.)
\<close>

function str_replace :: "string \<Rightarrow> string \<Rightarrow> string \<Rightarrow> string" where
  "str_replace old new s =
     (if old = [] then concat (map (\<lambda>c. new @ [c]) s) @ new
      else if s = [] then []
      else if prefix old s then new @ str_replace old new (drop (length old) s)
      else hd s # str_replace old new (tl s))"
  by pat_completeness auto
termination
  by (relation "measure (\<lambda>(old, new, s). length s)") (auto simp: neq_Nil_conv)

declare str_replace.simps [simp del]

text \<open>
  \<open>astype(float)\<close> calls Python's \<open>float\<close> on each string and raises ValueError, naming
  the string, at the first one it cannot read. \<open>float\<close> itself is the parameter \<open>pf\<close>
  (\<open>None\<close>: the string is not a number).
\<close>

definition float_error :: "string \<Rightarrow> py_error" where
  \<comment> \<open>the ValueError that \<open>float(s)\<close> raises\<close>
  "float_error s = ValueError s"

fun series_astype_float :: "(string \<Rightarrow> real option) \<Rightarrow> string list \<Rightarrow> py_error + series" where
  "series_astype_float pf [] = Inr []"
| "series_astype_float pf (s # ss) =
     (case pf s of
        None \<Rightarrow> Inl (float_error s)
      | Some x \<Rightarrow>
          (case series_astype_float pf ss of
             Inl e \<Rightarrow> Inl e
           | Inr xs \<Rightarrow> Inr (CFloat x # xs)))"

subsection \<open>\<open>float\<close> on plain decimal text\<close>

text \<open>
  For concrete inputs, \<open>py_float\<close> reads what Python's \<open>float\<close> reads of the plain
  decimal forms: an optional sign, digits, and an optional point with digits, at least
  one digit in all (\<open>28\<close>, \<open>28.0\<close>, \<open>-12.50\<close>, \<open>.5\<close>, \<open>5.\<close>). The other spellings
  \<open>float\<close> accepts (an exponent, \<open>inf\<close>, \<open>nan\<close>, underscores, blanks around the
  number) are not covered by it; the general theorems below hold for every \<open>pf\<close>.
\<close>

definition is_digit :: "char \<Rightarrow> bool" where
  "is_digit c = (c \<in> set ''0123456789'')"

definition digit_val :: "char \<Rightarrow> nat" where
  "digit_val c = of_char c - 48"

definition nat_of_digits :: "string \<Rightarrow> nat" where
  "nat_of_digits ds = foldl (\<lambda>a c. 10 * a + digit_val c) 0 ds"

definition split_sign :: "string \<Rightarrow> bool \<times> string" where
  "split_sign s =
     (case s of
        [] \<Rightarrow> (False, [])
      | c # r \<Rightarrow>
          if c = CHR ''-'' then (True, r)
          else if c = CHR ''+'' then (False, r)
          else (False, s))"

definition py_float :: "string \<Rightarrow> real option" where
  "py_float s =
     (let (neg, body) = split_sign s;
          ip = takeWhile is_digit body;
          rest = dropWhile is_digit body;
          sg = (if neg then - 1 else 1)
      in case rest of
           [] \<Rightarrow> if ip = [] then None else Some (sg * real (nat_of_digits ip))
         | c # fp \<Rightarrow>
             if c = CHR ''.'' \<and> list_all is_digit fp \<and> (ip \<noteq> [] \<or> fp \<noteq> [])
             then Some (sg * (real (nat_of_digits ip) + real (nat_of_digits fp) / 10 ^ length fp))
             else None)"

definition py_int :: "string \<Rightarrow> int option" where
  \<comment> \<open>\<open>int\<close> on plain decimal text: an optional sign and at least one digit\<close>
  "py_int s =
     (let (neg, body) = split_sign s
      in if body \<noteq> [] \<and> list_all is_digit body
         then Some ((if neg then - 1 else 1) * int (nat_of_digits body))
         else None)"

definition str_float_integral :: "real \<Rightarrow> string" where
  \<comment> \<open>\<open>str\<close> of a float of integral value below \<open>10^16\<close>: \<open>str(28.0) = '28.0'\<close>\<close>
  "str_float_integral x = str_int \<lfloor>x\<rfloor> @ ''.0''"

section \<open>The embedded table and \<open>read_csv\<close>\<close>

definition newline :: char where
  "newline = CHR 0x0A"

definition DEMO_DATA :: string where
  "DEMO_DATA =
     ''Client_Name,Strategic_Importance_(1-5),Spend_Potential_(1-5),Relationship_Risk_(R/A/G),FY25_Revenue,%_of_Total_Revenue'' @ newline #
     ''Arctic Tours,1,2,R,200000,28%'' @ newline #
     ''Blackpool Tower,1,2,A,5000,1%'' @ newline #
     ''Crest Hotels,4,1,G,35000,5%'' @ newline #
     ''Dan Air,4,5,A,26500,4%'' @ newline #
     ''EasyJetter,5,4,G,30000,4%'' @ newline #
     ''Finland Tourist Board,1,4,A,60000,8%'' @ newline #
     ''Grange Hotel Group,3,3,R,45000,6%'' @ newline #
     ''Hotelfinance.com,4,2,A,92500,13%'' @ newline #
     ''Iceland Tours,5,1,R,69500,10%'' @ newline #
     ''Jupiter Travel Ltd,1,1,A,8500,1%'' @ newline #
     ''Kenyan Safari Group,2,2,A,16000,2%'' @ newline #
     ''Lapland Holidays,4,3,G,16000,2%'' @ newline #
     ''Monte Carlo Yachting Group,5,5,G,105000,15%''"

text \<open>
  \<open>pd.read_csv\<close> on comma-separated text with a header line, no quoting and as many
  fields in every line as in the header, which is what the embedded text is: blank
  lines are skipped, the first line names the columns, and a column whose every field
  reads as an integer becomes an integer column, else one whose every field reads as a
  float a float column, else it keeps its strings. Text with no line at all, or with a
  line of another length, is refused here (pandas fills a short line with missing
  values, which this model does not have).
\<close>

fun split_on :: "char \<Rightarrow> string \<Rightarrow> string list" where
  "split_on sep [] = [[]]"
| "split_on sep (c # cs) =
     (if c = sep then [] # split_on sep cs
      else (case split_on sep cs of [] \<Rightarrow> [[c]] | w # ws \<Rightarrow> (c # w) # ws))"

definition infer_column :: "string list \<Rightarrow> series" where
  "infer_column vals =
     (case those (map py_int vals) of
        Some ns \<Rightarrow> map CInt ns
      | None \<Rightarrow>
          (case those (map py_float vals) of
             Some xs \<Rightarrow> map CFloat xs
           | None \<Rightarrow> map CStr vals))"

definition read_csv :: "string \<Rightarrow> py_error + dataframe" where
  "read_csv text =
     (case filter (\<lambda>l. l \<noteq> []) (split_on newline text) of
        [] \<Rightarrow> Inl (ParserError ''No columns to parse from file'')
      | header # rows \<Rightarrow>
          (let names = split_on CHR '','' header;
               recs = map (split_on CHR '','') rows
           in if list_all (\<lambda>r. length r = length names) recs
              then Inr (map (\<lambda>j. (names ! j, infer_column (map (\<lambda>r. r ! j) recs)))
                            [0..<length names])
              else Inl (ParserError ''Error tokenizing data'')))"

definition load_demo_data :: "py_error + dataframe" where
  "load_demo_data = read_csv DEMO_DATA"

section \<open>Loading and cleaning\<close>

definition name_col :: string where
  "name_col = ''Client_Name''"

definition importance_col :: string where
  "importance_col = ''Strategic_Importance_(1-5)''"

definition spend_col :: string where
  "spend_col = ''Spend_Potential_(1-5)''"

definition risk_col :: string where
  "risk_col = ''Relationship_Risk_(R/A/G)''"

definition revenue_col :: string where
  "revenue_col = ''FY25_Revenue''"

definition pct_col :: string where
  "pct_col = ''%_of_Total_Revenue''"

text \<open>
  \<open>clean_percentage_column\<close> as a function of the table's value: the copy it works on
  starts equal to \<open>df\<close>; when the column is there it is replaced, in its place, by the
  floats read from its cells; a cell that does not read raises ValueError out of the
  function.
\<close>

definition clean_percentage_column ::
  "(string \<Rightarrow> real option) \<Rightarrow> (real \<Rightarrow> string) \<Rightarrow> dataframe \<Rightarrow> py_error + dataframe" where
  "clean_percentage_column pf fs df =
     (case map_of df pct_col of
        None \<Rightarrow> Inr df
      | Some col \<Rightarrow>
          (case series_astype_float pf (map (str_replace ''%'' '''') (map (astype_str fs) col)) of
             Inl e \<Rightarrow> Inl e
           | Inr col' \<Rightarrow> Inr (AList.update pct_col col' df)))"

text \<open>
  The same function on objects. Tables live in a store, a reference is an index into
  it, and the caller's table is the object at \<open>r\<close>. \<open>df = df.copy()\<close> allocates a new
  object holding the same value and rebinds the local name to it; the assignment
  \<open>df[c] = ...\<close> then writes into the object the local name refers to. The result is
  the returned reference, or the exception, with the store the call leaves behind.
\<close>

type_synonym store = "dataframe list"

definition df_copy :: "nat \<Rightarrow> store \<Rightarrow> nat \<times> store" where
  "df_copy r h = (length h, h @ [h ! r])"

definition df_setitem :: "nat \<Rightarrow> string \<Rightarrow> series \<Rightarrow> store \<Rightarrow> store" where
  "df_setitem r c v h = h[r := AList.update c v (h ! r)]"

definition clean_percentage_column_obj ::
  "(string \<Rightarrow> real option) \<Rightarrow> (real \<Rightarrow> string) \<Rightarrow> nat \<Rightarrow> store \<Rightarrow> (py_error + nat) \<times> store" where
  "clean_percentage_column_obj pf fs r h =
     (let (df, h1) = df_copy r h
      in case map_of (h1 ! df) pct_col of
           None \<Rightarrow> (Inr df, h1)
         | Some col \<Rightarrow>
             (case series_astype_float pf (map (str_replace ''%'' '''') (map (astype_str fs) col)) of
                Inl e \<Rightarrow> (Inl e, h1)
              | Inr col' \<Rightarrow> (Inr df, df_setitem df pct_col col' h1)))"

section \<open>The chart\<close>

text \<open>
  A shape is a rectangle \<open>Rect x0 y0 x1 y1 fillcolor opacity\<close> (drawn below the data,
  with no outline) or a line \<open>Line x0 y0 x1 y1 color width\<close>. A reference line is
  \<open>VLine x dash color width opacity\<close> or \<open>HLine y dash color width opacity\<close>. Fonts,
  backgrounds, the legend, the hover template and the size and margins of the figure are
  left out.
\<close>

datatype shape =
    Rect real real real real string real
  | Line real real real real string real

datatype ref_line =
    VLine real string string real real
  | HLine real string string real real

record annotation =
  ann_x :: real
  ann_y :: real
  ann_text :: string
  showarrow :: bool

record axis =
  axis_range :: "real \<times> real"
  dtick :: real
  axis_title :: string

text \<open>
  \<open>px.scatter\<close> draws the rows as points, grouped into one trace for each risk value;
  \<open>points\<close> lists the points of all traces in the order of the rows, each with its
  risk value and the colour of its trace. \<open>update_traces\<close> then sets the same
  \<open>customdata\<close> on every trace: the rows of the whole table.
\<close>

record point =
  pt_x :: cell
  pt_y :: cell
  pt_size :: cell
  pt_risk :: cell
  pt_color :: "string option"

record figure =
  points :: "point list"
  customdata :: "cell list list"
  shapes :: "shape list"
  annotations :: "annotation list"
  ref_lines :: "ref_line list"
  xaxis :: axis
  yaxis :: axis
  title :: string

definition color_map :: "(string \<times> string) list" where
  "color_map = [(''R'', ''#FF4444''), (''A'', ''#FFA500''), (''G'', ''#00AA00'')]"

definition risk_color :: "cell \<Rightarrow> string option" where
  \<comment> \<open>the colour \<open>color_discrete_map\<close> gives a risk value; \<open>None\<close>: the map has none, and
      plotly takes one from its default sequence\<close>
  "risk_color c = (case c of CStr s \<Rightarrow> map_of color_map s | _ \<Rightarrow> None)"

definition quadrant_rects :: "shape list" where
  "quadrant_rects =
     [Rect 0.5 3 3 5.5 ''lightgray'' 0.15,
      Rect 3 3 5.5 5.5 ''lightblue'' 0.15,
      Rect 0.5 0.5 3 3 ''lightyellow'' 0.15,
      Rect 3 0.5 5.5 3 ''lightgreen'' 0.15]"

definition quadrant_labels :: "annotation list" where
  "quadrant_labels =
     [\<lparr>ann_x = 1.75, ann_y = 4.25, ann_text = ''<b>Bronze</b>'', showarrow = False\<rparr>,
      \<lparr>ann_x = 4.25, ann_y = 4.25, ann_text = ''<b>Platinum</b>'', showarrow = False\<rparr>,
      \<lparr>ann_x = 1.75, ann_y = 1.75, ann_text = ''<b>Silver</b>'', showarrow = False\<rparr>,
      \<lparr>ann_x = 4.25, ann_y = 1.75, ann_text = ''<b>Gold</b>'', showarrow = False\<rparr>]"

definition axis_arrows_and_labels :: "annotation list" where
  "axis_arrows_and_labels =
     [\<lparr>ann_x = 5.5, ann_y = 0.5, ann_text = '''', showarrow = True\<rparr>,
      \<lparr>ann_x = 0.5, ann_y = 5.5, ann_text = '''', showarrow = True\<rparr>,
      \<lparr>ann_x = 5.7, ann_y = 0.3, ann_text = ''HIGH'', showarrow = False\<rparr>,
      \<lparr>ann_x = 0.3, ann_y = 0.3, ann_text = ''LOW'', showarrow = False\<rparr>,
      \<lparr>ann_x = 0.3, ann_y = 5.7, ann_text = ''HIGH'', showarrow = False\<rparr>,
      \<lparr>ann_x = 0.3, ann_y = 0.8, ann_text = ''LOW'', showarrow = False\<rparr>]"

definition column :: "dataframe \<Rightarrow> string \<Rightarrow> py_error + series" where
  \<comment> \<open>\<open>df[c]\<close>, which raises KeyError when there is no such column\<close>
  "column df c = (case map_of df c of None \<Rightarrow> Inl (KeyError c) | Some col \<Rightarrow> Inr col)"

definition valid_size :: "cell \<Rightarrow> bool" where
  \<comment> \<open>what plotly accepts as the size of a marker: a number that is not negative\<close>
  "valid_size c = (case cell_num c of None \<Rightarrow> False | Some x \<Rightarrow> 0 \<le> x)"

definition scatter_points :: "dataframe \<Rightarrow> py_error + point list" where
  \<comment> \<open>the points of \<open>px.scatter\<close>, one for each row: x, y, size and colour from their
      columns. It raises ValueError when a column it is given is not in the table, and
      when a size is not valid.\<close>
  "scatter_points df =
     (case (column df name_col, column df importance_col, column df spend_col,
            column df risk_col, column df revenue_col, column df pct_col) of
        (Inr ns, Inr imps, Inr ss, Inr ks, Inr vs, Inr ps) \<Rightarrow>
          if list_all valid_size ps
          then Inr (map (\<lambda>(i, s, k, p).
                      \<lparr>pt_x = s, pt_y = i, pt_size = p, pt_risk = k, pt_color = risk_color k\<rparr>)
                   (zip imps (zip ss (zip ks ps))))
          else Inl (ValueError ''a size of a marker is negative or not a number'')
      | _ \<Rightarrow> Inl (ValueError ''a column of the chart is not in the table''))"

definition hover_rows :: "dataframe \<Rightarrow> py_error + cell list list" where
  \<comment> \<open>\<open>df[[...]].values\<close> of the six columns: the rows of the table\<close>
  "hover_rows df =
     (case (column df name_col, column df importance_col, column df spend_col,
            column df risk_col, column df revenue_col, column df pct_col) of
        (Inr ns, Inr imps, Inr ss, Inr ks, Inr vs, Inr ps) \<Rightarrow>
          Inr (map (\<lambda>(n, i, s, k, v, p). [n, i, s, k, v, p])
                   (zip ns (zip imps (zip ss (zip ks (zip vs ps))))))
      | _ \<Rightarrow> Inl (KeyError ''a column is not in the table''))"

definition create_scatter_plot :: "dataframe \<Rightarrow> py_error + figure" where
  "create_scatter_plot df =
     (case scatter_points df of
        Inl e \<Rightarrow> Inl e
      | Inr pts \<Rightarrow>
        (case hover_rows df of
           Inl e \<Rightarrow> Inl e
         | Inr rows \<Rightarrow>
          Inr \<lparr>points = pts,
               customdata = rows,
               shapes = quadrant_rects @
                 [Line 0.5 0.5 5.5 0.5 ''black'' 3, Line 0.5 0.5 0.5 5.5 ''black'' 3],
               annotations = quadrant_labels @ axis_arrows_and_labels,
               ref_lines = [VLine 3 ''solid'' ''darkgray'' 2 0.7, HLine 3 ''solid'' ''darkgray'' 2 0.7],
               xaxis = \<lparr>axis_range = (0.5, 5.5), dtick = 1,
                 axis_title = ''<b>SPEND POTENTIAL</b><br>(how much budget available to spend with the agency?)''\<rparr>,
               yaxis = \<lparr>axis_range = (0.5, 5.5), dtick = 1,
                 axis_title = ''<b>STRATEGIC IMPORTANCE</b><br>(how important is this account to the agency?)''\<rparr>,
               title = ''<b>Client Categorisation Matrix</b>''\<rparr>))"

fun is_rect :: "shape \<Rightarrow> bool" where
  "is_rect (Rect x0 y0 x1 y1 c a) = True"
| "is_rect (Line x0 y0 x1 y1 c w) = False"

fun inside_rect :: "shape \<Rightarrow> real \<times> real \<Rightarrow> bool" where
  "inside_rect (Rect x0 y0 x1 y1 c a) (x, y) = (x0 < x \<and> x < x1 \<and> y0 < y \<and> y < y1)"
| "inside_rect (Line x0 y0 x1 y1 c w) (x, y) = False"

definition labels_in :: "shape \<Rightarrow> annotation list \<Rightarrow> string list" where
  \<comment> \<open>the texts of the annotations that are set inside a rectangle, off its border\<close>
  "labels_in r anns = map ann_text (filter (\<lambda>a. inside_rect r (ann_x a, ann_y a)) anns)"

section \<open>Validation\<close>

text \<open>
  What the page shows, in order: the messages, the chart, the metrics and the written
  lines. Titles, rules, the data preview and the download button are left out. An
  exception that nothing catches ends the run and is shown by Streamlit: \<open>Uncaught\<close>,
  always the last event.
\<close>

datatype ui =
    StInfo string | StError string | StWarning string
  | StPlotlyChart figure | StMetric string string | StWrite string
  | StErrorWith string py_error
  | Uncaught py_error

text \<open>
  \<open>StErrorWith t e\<close> is \<open>st.error\<close> of the text \<open>t\<close> followed by \<open>str(e)\<close>, the message of
  the exception \<open>e\<close>.
\<close>

fun is_error_event :: "ui \<Rightarrow> bool" where
  \<comment> \<open>an error shown to the user: \<open>st.error\<close>, or an exception that ended the run\<close>
  "is_error_event (StError m) = True"
| "is_error_event (StErrorWith t e) = True"
| "is_error_event (Uncaught e) = True"
| "is_error_event (StInfo m) = False"
| "is_error_event (StWarning m) = False"
| "is_error_event (StPlotlyChart fig) = False"
| "is_error_event (StMetric l v) = False"
| "is_error_event (StWrite l) = False"

fun join :: "string \<Rightarrow> string list \<Rightarrow> string" where
  \<comment> \<open>\<open>sep.join(xs)\<close>\<close>
  "join sep [] = []"
| "join sep [x] = x"
| "join sep (x # y # ys) = x @ sep @ join sep (y # ys)"

definition required_columns :: "string list" where
  "required_columns = [name_col, importance_col, spend_col, risk_col, revenue_col, pct_col]"

definition missing_columns :: "dataframe \<Rightarrow> string list" where
  "missing_columns df = filter (\<lambda>c. c \<notin> set (map fst df)) required_columns"

definition validate_data :: "dataframe \<Rightarrow> bool \<times> ui list" where
  \<comment> \<open>the returned flag, and what the call shows\<close>
  "validate_data df =
     (if missing_columns df \<noteq> []
      then (False,
            [StError (''Missing required columns: '' @ join '', '' (missing_columns df)),
             StInfo (''Required columns: '' @ join '', '' required_columns)])
      else (True, []))"

section \<open>Loading a user's table\<close>

text \<open>
  \<open>load_data_from_file\<close> and \<open>load_data_from_url\<close> take the outcome of reading the
  source (\<open>pd.read_csv\<close>, after the download for a URL): the table, or the exception
  raised. Whatever is raised inside the \<open>try\<close>, by the read or by
  \<open>clean_percentage_column\<close>, is shown with \<open>st.error\<close> and the function returns
  \<open>None\<close>.
\<close>

definition load_data_from_file ::
  "(string \<Rightarrow> real option) \<Rightarrow> (real \<Rightarrow> string) \<Rightarrow> py_error + dataframe
     \<Rightarrow> dataframe option \<times> ui list" where
  "load_data_from_file pf fs read =
     (case read of
        Inl e \<Rightarrow> (None, [StErrorWith ''Error loading data from file: '' e])
      | Inr df \<Rightarrow>
          (case clean_percentage_column pf fs df of
             Inl e \<Rightarrow> (None, [StErrorWith ''Error loading data from file: '' e])
           | Inr df' \<Rightarrow> (Some df', [])))"

definition load_data_from_url ::
  "(string \<Rightarrow> real option) \<Rightarrow> (real \<Rightarrow> string) \<Rightarrow> py_error + dataframe
     \<Rightarrow> dataframe option \<times> ui list" where
  "load_data_from_url pf fs read =
     (case read of
        Inl e \<Rightarrow> (None, [StErrorWith ''Error loading data from URL: '' e])
      | Inr df \<Rightarrow>
          (case clean_percentage_column pf fs df of
             Inl e \<Rightarrow> (None, [StErrorWith ''Error loading data from URL: '' e])
           | Inr df' \<Rightarrow> (Some df', [])))"

section \<open>The summary\<close>

subsection \<open>Number formats\<close>

definition round_half_even :: "real \<Rightarrow> int" where
  "round_half_even x =
     (let f = \<lfloor>x\<rfloor>; d = x - of_int f
      in if d < 1 / 2 then f
         else if d > 1 / 2 then f + 1
         else if even f then f else f + 1)"

text \<open>
  Python's floats are binary: the result of a division or a multiplication is the exact
  result rounded to the nearest number \<open>m * 2^e\<close> with \<open>m < 2^53\<close> and \<open>e \<ge> -1074\<close>, a
  tie to the even \<open>m\<close>. \<open>float64\<close> is that rounding: the absolute value is scaled by
  powers of two until it lies from \<open>2^52\<close> up to \<open>2^53\<close>, or the least exponent is
  reached, and is rounded there. (Values beyond the largest float, about \<open>1.8 * 10^308\<close>,
  are outside this model.)
\<close>

function scale_down :: "real \<Rightarrow> int \<Rightarrow> real \<times> int" where
  "scale_down x e = (if 2 ^ 53 \<le> x then scale_down (x / 2) (e + 1) else (x, e))"
  by pat_completeness auto
termination
proof (relation "measure (\<lambda>(x, e). nat \<lfloor>x\<rfloor>)")
  show "wf (measure (\<lambda>(x, e). nat \<lfloor>x\<rfloor>))" by simp
next
  fix x :: real and e :: int
  assume a: "2 ^ 53 \<le> x"
  then have "x / 2 \<le> x - 1" by simp
  then have "\<lfloor>x / 2\<rfloor> \<le> \<lfloor>x - 1\<rfloor>" by (rule floor_mono)
  moreover from a have "1 \<le> \<lfloor>x\<rfloor>" by simp
  ultimately show "((x / 2, e + 1), (x, e)) \<in> measure (\<lambda>(x, e). nat \<lfloor>x\<rfloor>)"
    by simp
qed

function scale_up :: "real \<Rightarrow> int \<Rightarrow> real \<times> int" where
  "scale_up x e = (if x < 2 ^ 52 \<and> - 1074 < e then scale_up (2 * x) (e - 1) else (x, e))"
  by pat_completeness auto
termination
  by (relation "measure (\<lambda>(x, e). nat (e + 1074))") auto

declare scale_down.simps [simp del]

declare scale_up.simps [simp del]

definition float64 :: "real \<Rightarrow> real" where
  "float64 x =
     (let (y, e) = scale_down \<bar>x\<bar> 0;
          (z, e') = scale_up y e
      in sgn x * of_int (round_half_even z) * 2 powi e')"

text \<open>
  The formats \<open>.1f\<close> and \<open>,.0f\<close> write the decimal number with one digit, or none, after
  the point that is nearest to the exact value of the float they are given, a tie to the
  even one, with a sign only for a negative number. \<open>fmt_1f\<close> and \<open>fmt_comma_0f\<close> take
  that exact value.
\<close>

definition fmt_1f :: "real \<Rightarrow> string" where
  \<comment> \<open>\<open>f"{x:.1f}"\<close>\<close>
  "fmt_1f x =
     (let t = nat (round_half_even (\<bar>x\<bar> * 10))
      in (if x < 0 then ''-'' else '''') @ str_nat (t div 10) @ ''.'' @ [digit_char (t mod 10)])"

function group_thousands :: "string \<Rightarrow> string" where
  "group_thousands ds =
     (if length ds \<le> 3 then ds
      else group_thousands (take (length ds - 3) ds) @ '','' @ drop (length ds - 3) ds)"
  by pat_completeness auto
termination
  by (relation "measure length") auto

declare group_thousands.simps [simp del]

definition fmt_comma_0f :: "real \<Rightarrow> string" where
  \<comment> \<open>\<open>f"{x:,.0f}"\<close>\<close>
  "fmt_comma_0f x =
     (if x < 0 then ''-'' else '''') @ group_thousands (str_nat (nat (round_half_even \<bar>x\<bar>)))"

definition fmt_1f_nan :: "real option \<Rightarrow> string" where
  \<comment> \<open>\<open>f"{x:.1f}"\<close> of a float that may be NaN\<close>
  "fmt_1f_nan v = (case v of None \<Rightarrow> ''nan'' | Some x \<Rightarrow> fmt_1f x)"

subsection \<open>The statistics\<close>

definition total_revenue :: "dataframe \<Rightarrow> py_error + real" where
  \<comment> \<open>\<open>df['FY25_Revenue'].sum()\<close> as the number the metric formats. The sum of an empty
      column is 0. Over strings \<open>sum\<close> joins them, and the format \<open>,.0f\<close> of a string
      raises ValueError.\<close>
  "total_revenue df =
     (case column df revenue_col of
        Inl e \<Rightarrow> Inl e
      | Inr col \<Rightarrow>
          (case those (map cell_num col) of
             None \<Rightarrow> Inl (ValueError ''Unknown format code f for object of type str'')
           | Some vs \<Rightarrow> Inr (sum_list vs)))"

definition high_risk_count :: "dataframe \<Rightarrow> py_error + nat" where
  \<comment> \<open>\<open>len(df[df['Relationship_Risk_(R/A/G)'] == 'R'])\<close>\<close>
  "high_risk_count df =
     (case column df risk_col of
        Inl e \<Rightarrow> Inl e
      | Inr col \<Rightarrow> Inr (length (filter (\<lambda>c. c = CStr ''R'') col)))"

definition avg_strategic_importance :: "dataframe \<Rightarrow> py_error + real option" where
  \<comment> \<open>\<open>df['Strategic_Importance_(1-5)'].mean()\<close>: the mean of no value is NaN
      (\<open>None\<close>); pandas 2 raises TypeError for the mean of strings. The mean is the sum
      divided by the count, as floats; the sum itself is taken exactly, as it is for a
      column of integers.\<close>
  "avg_strategic_importance df =
     (case column df importance_col of
        Inl e \<Rightarrow> Inl e
      | Inr col \<Rightarrow>
          (if col = [] then Inr None
           else case those (map cell_num col) of
                  None \<Rightarrow> Inl (TypeError ''Could not convert string to numeric'')
                | Some vs \<Rightarrow> Inr (Some (float64 (sum_list vs / real (length vs))))))"

definition value_counts :: "series \<Rightarrow> (cell \<times> nat) list" where
  \<comment> \<open>\<open>Series.value_counts()\<close>: each value that occurs with its number of occurrences,
      the most frequent first. Among values of equal count pandas promises no order; here
      they stand in the order of their first occurrence.\<close>
  "value_counts col =
     sort_key (\<lambda>(v, n). - int n) (map (\<lambda>v. (v, count_list col v)) (rev (remdups (rev col))))"

definition risk_labels :: "(string \<times> string) list" where
  "risk_labels =
     [(''R'', ''Red (High Risk)''), (''A'', ''Amber (Medium Risk)''), (''G'', ''Green (Low Risk)'')]"

definition bullet :: string where
  \<comment> \<open>the bullet character U+2022 in UTF-8, and a space\<close>
  "bullet = [CHR 0xE2, CHR 0x80, CHR 0xA2, CHR '' '']"

definition pound :: string where
  \<comment> \<open>the pound sign U+00A3 in UTF-8\<close>
  "pound = [CHR 0xC2, CHR 0xA3]"

definition risk_line :: "(real \<Rightarrow> string) \<Rightarrow> nat \<Rightarrow> cell \<times> nat \<Rightarrow> py_error + string" where
  \<comment> \<open>the body of the loop over \<open>risk_counts.items()\<close>, for a table of \<open>n\<close> rows\<close>
  "risk_line fs n rc =
     (case rc of (risk, count) \<Rightarrow>
        if n = 0 then Inl (ZeroDivisionError ''division by zero'')
        else
          (let percentage = float64 (float64 (real count / real n) * 100);
               risk_str = astype_str fs risk;
               label = (case map_of risk_labels risk_str of None \<Rightarrow> risk_str | Some l \<Rightarrow> l)
           in Inr (bullet @ label @ '': '' @ str_nat count @ '' clients ('' @ fmt_1f percentage @ ''%)'')))"

fun risk_distribution :: "(real \<Rightarrow> string) \<Rightarrow> nat \<Rightarrow> (cell \<times> nat) list \<Rightarrow> ui list" where
  \<comment> \<open>the loop: one written line for each entry, until an exception\<close>
  "risk_distribution fs n [] = []"
| "risk_distribution fs n (rc # rcs) =
     (case risk_line fs n rc of
        Inl e \<Rightarrow> [Uncaught e]
      | Inr l \<Rightarrow> StWrite l # risk_distribution fs n rcs)"

definition data_summary :: "(real \<Rightarrow> string) \<Rightarrow> dataframe \<Rightarrow> ui list" where
  "data_summary fs df =
     StMetric ''Total Clients'' (str_nat (len_df df)) #
     (case total_revenue df of
        Inl e \<Rightarrow> [Uncaught e]
      | Inr revenue \<Rightarrow>
          StMetric ''Total Revenue'' (pound @ fmt_comma_0f revenue) #
          (case high_risk_count df of
             Inl e \<Rightarrow> [Uncaught e]
           | Inr k \<Rightarrow>
               StMetric ''High Risk Clients'' (str_nat k) #
               (case avg_strategic_importance df of
                  Inl e \<Rightarrow> [Uncaught e]
                | Inr avg \<Rightarrow>
                    StMetric ''Avg Strategic Importance'' (fmt_1f_nan avg) #
                    (case column df risk_col of
                       Inl e \<Rightarrow> [Uncaught e]
                     | Inr col \<Rightarrow> risk_distribution fs (len_df df) (value_counts col)))))"

section \<open>The page\<close>

text \<open>
  The widgets' values are the inputs of a run: the chosen mode, the outcome of reading
  the uploaded file (\<open>None\<close>: no file was uploaded) and of fetching and reading the URL
  (\<open>None\<close>: no URL was entered). \<open>main\<close> is the source's \<open>main\<close>, its second half
  (from the comment "Validate and display chart") written as \<open>validate_and_display\<close>.
\<close>

datatype data_mode = DemoData | UserData

record inputs =
  mode :: data_mode
  uploaded_file :: "(py_error + dataframe) option"
  csv_url :: "(py_error + dataframe) option"

definition from_file :: "dataframe \<Rightarrow> inputs" where
  \<comment> \<open>a run in which the user uploads a file that reads as \<open>df\<close>\<close>
  "from_file df = \<lparr>mode = UserData, uploaded_file = Some (Inr df), csv_url = None\<rparr>"

definition from_url :: "dataframe \<Rightarrow> inputs" where
  \<comment> \<open>a run in which the user enters a URL whose text reads as \<open>df\<close>\<close>
  "from_url df = \<lparr>mode = UserData, uploaded_file = None, csv_url = Some (Inr df)\<rparr>"

definition upload_prompt :: string where
  \<comment> \<open>the text starts with the pointing hand U+1F446 in UTF-8\<close>
  "upload_prompt =
     [CHR 0xF0, CHR 0x9F, CHR 0x91, CHR 0x86] @
     '' Please upload a CSV file or provide a URL to load your data.''"

definition validate_and_display :: "(real \<Rightarrow> string) \<Rightarrow> data_mode \<Rightarrow> dataframe option \<Rightarrow> ui list" where
  "validate_and_display fs m dfo =
     (case dfo of
        Some df \<Rightarrow>
          (case validate_data df of
             (True, shown) \<Rightarrow>
               shown @
               (case create_scatter_plot df of
                  Inl e \<Rightarrow> [Uncaught e]
                | Inr fig \<Rightarrow> StPlotlyChart fig # data_summary fs df)
           | (False, shown) \<Rightarrow>
               shown @ [StWarning ''Please ensure your data has all required columns.''])
      | None \<Rightarrow>
          (if m = UserData then [StInfo upload_prompt] else []))"

definition demo_table :: "(string \<Rightarrow> real option) \<Rightarrow> (real \<Rightarrow> string) \<Rightarrow> py_error + dataframe" where
  \<comment> \<open>\<open>df = load_demo_data()\<close> and \<open>df = clean_percentage_column(df)\<close>, outside any \<open>try\<close>\<close>
  "demo_table pf fs =
     (case load_demo_data of
        Inl e \<Rightarrow> Inl e
      | Inr df \<Rightarrow> clean_percentage_column pf fs df)"

text \<open>
  The value of the embedded table as read, and as cleaned (\<open>load_demo_data_value\<close> and
  \<open>demo_table_value\<close> below prove that they are).
\<close>

definition demo_raw :: dataframe where
  "demo_raw =
    [(name_col,
       [CStr ''Arctic Tours'', CStr ''Blackpool Tower'',
        CStr ''Crest Hotels'', CStr ''Dan Air'', CStr ''EasyJetter'',
        CStr ''Finland Tourist Board'', CStr ''Grange Hotel Group'',
        CStr ''Hotelfinance.com'', CStr ''Iceland Tours'',
        CStr ''Jupiter Travel Ltd'', CStr ''Kenyan Safari Group'',
        CStr ''Lapland Holidays'', CStr ''Monte Carlo Yachting Group'']),
     (importance_col,
       [CInt 1, CInt 1, CInt 4, CInt 4, CInt 5, CInt 1, CInt 3, CInt 4,
        CInt 5, CInt 1, CInt 2, CInt 4, CInt 5]),
     (spend_col,
       [CInt 2, CInt 2, CInt 1, CInt 5, CInt 4, CInt 4, CInt 3, CInt 2,
        CInt 1, CInt 1, CInt 2, CInt 3, CInt 5]),
     (risk_col,
       [CStr ''R'', CStr ''A'', CStr ''G'', CStr ''A'', CStr ''G'',
        CStr ''A'', CStr ''R'', CStr ''A'', CStr ''R'', CStr ''A'',
        CStr ''A'', CStr ''G'', CStr ''G'']),
     (revenue_col,
       [CInt 200000, CInt 5000, CInt 35000, CInt 26500, CInt 30000,
        CInt 60000, CInt 45000, CInt 92500, CInt 69500, CInt 8500,
        CInt 16000, CInt 16000, CInt 105000]),
     (pct_col,
       [CStr ''28%'', CStr ''1%'', CStr ''5%'', CStr ''4%'', CStr ''4%'',
        CStr ''8%'', CStr ''6%'', CStr ''13%'', CStr ''10%'', CStr ''1%'',
        CStr ''2%'', CStr ''2%'', CStr ''15%''])]"

definition demo_clean :: dataframe where
  "demo_clean =
     AList.update pct_col (map CFloat [28, 1, 5, 4, 4, 8, 6, 13, 10, 1, 2, 2, 15]) demo_raw"

definition main :: "(string \<Rightarrow> real option) \<Rightarrow> (real \<Rightarrow> string) \<Rightarrow> inputs \<Rightarrow> ui list" where
  "main pf fs inp =
     (case mode inp of
        DemoData \<Rightarrow>
          StInfo ''Using embedded demo data for immediate testing and validation.'' #
          (case demo_table pf fs of
             Inl e \<Rightarrow> [Uncaught e]
           | Inr df \<Rightarrow> validate_and_display fs DemoData (Some df))
      | UserData \<Rightarrow>
          (let (df1, shown1) =
                 (case uploaded_file inp of
                    None \<Rightarrow> (None, [])
                  | Some read \<Rightarrow> load_data_from_file pf fs read);
               (df2, shown2) =
                 (case csv_url inp of
                    None \<Rightarrow> (df1, [])
                  | Some read \<Rightarrow>
                      if uploaded_file inp = None then load_data_from_url pf fs read
                      else (df1, []))
           in StInfo ''Upload your own CSV file or provide a URL to load custom data.'' #
              shown1 @ shown2 @ validate_and_display fs UserData df2))"

section \<open>Example tables\<close>

text \<open>A table of one client that has every required column but \<open>FY25_Revenue\<close>.\<close>

definition no_revenue_table :: dataframe where
  "no_revenue_table =
     [(name_col, [CStr ''Acme'']), (importance_col, [CInt 4]), (spend_col, [CInt 2]),
      (risk_col, [CStr ''G'']), (pct_col, [CFloat 100])]"

text \<open>A table of one client with all six columns, already cleaned.\<close>

definition one_client_table :: dataframe where
  "one_client_table =
     [(name_col, [CStr ''Acme'']), (importance_col, [CInt 4]), (spend_col, [CInt 2]),
      (risk_col, [CStr ''G'']), (revenue_col, [CInt 1000]), (pct_col, [CFloat 100])]"

text \<open>The table of a file that holds the header line and no row.\<close>

definition empty_table :: dataframe where
  "empty_table =
     [(name_col, []), (importance_col, []), (spend_col, []),
      (risk_col, []), (revenue_col, []), (pct_col, [])]"

text \<open>
  The text of a file with one client whose spend potential is not a number, and a table,
  as read, whose percentage cell is not one.
\<close>

definition bad_spend_csv :: string where
  "bad_spend_csv =
     ''Client_Name,Strategic_Importance_(1-5),Spend_Potential_(1-5),Relationship_Risk_(R/A/G),FY25_Revenue,%_of_Total_Revenue'' @ newline #
     ''Acme,4,abc,G,1000,100%''"

definition bad_pct_table :: dataframe where
  "bad_pct_table =
     [(name_col, [CStr ''Acme'', CStr ''Bolt'']), (importance_col, [CInt 4, CInt 2]),
      (spend_col, [CInt 2, CInt 5]), (risk_col, [CStr ''G'', CStr ''R'']),
      (revenue_col, [CInt 1000, CInt 3000]), (pct_col, [CStr ''25%'', CStr ''abc''])]"

text \<open>
  Tables of one client, as read, whose revenue and whose strategic importance is a text,
  and a cleaned table whose revenue share is negative.
\<close>

definition bad_revenue_table :: dataframe where
  "bad_revenue_table =
     [(name_col, [CStr ''Acme'']), (importance_col, [CInt 4]), (spend_col, [CInt 2]),
      (risk_col, [CStr ''G'']), (revenue_col, [CStr ''abc'']), (pct_col, [CStr ''100%''])]"

definition bad_importance_table :: dataframe where
  "bad_importance_table =
     [(name_col, [CStr ''Acme'']), (importance_col, [CStr ''abc'']), (spend_col, [CInt 2]),
      (risk_col, [CStr ''G'']), (revenue_col, [CInt 1000]), (pct_col, [CStr ''100%''])]"

definition negative_share_table :: dataframe where
  "negative_share_table =
     [(name_col, [CStr ''Acme'']), (importance_col, [CInt 4]), (spend_col, [CInt 2]),
      (risk_col, [CStr ''G'']), (revenue_col, [CInt 1000]), (pct_col, [CFloat (- 5)])]"

text \<open>A store that holds one table, the caller's.\<close>

definition one_table_store :: store where
  "one_table_store = [[(name_col, [CStr ''Acme'']), (pct_col, [CStr ''28%''])]]"

section \<open>Evaluation lemmas\<close>

lemma str_nat_small: "n < 10 \<Longrightarrow> str_nat n = [digit_char n]"
  by (subst str_nat.simps) simp

lemma str_nat_big: "10 \<le> n \<Longrightarrow> str_nat n = str_nat (n div 10) @ [digit_char (n mod 10)]"
  by (subst str_nat.simps) simp

lemmas str_eval = str_nat_small str_nat_big digit_char_def str_int_def

lemmas py_float_eval = py_float_def split_sign_def is_digit_def nat_of_digits_def digit_val_def

lemma str_replace_char: "str_replace [c] [] s = filter (\<lambda>x. x \<noteq> c) s"
proof (induction s)
  case Nil
  show ?case by (subst str_replace.simps) simp
next
  case (Cons a s)
  show ?case by (subst str_replace.simps) (simp add: Cons.IH)
qed

lemma str_replace_pct: "str_replace ''%'' '''' = filter (\<lambda>x. x \<noteq> CHR ''%'')"
  by (rule ext) (rule str_replace_char)

lemma py_float_28: "py_float ''28'' = Some 28"
  by (simp add: py_float_eval)

lemma py_float_5: "py_float ''5'' = Some 5"
  by (simp add: py_float_eval)

lemma py_float_28_0: "py_float ''28.0'' = Some 28"
  by (simp add: py_float_eval)

lemma py_float_5_0: "py_float ''5.0'' = Some 5"
  by (simp add: py_float_eval)

lemma py_float_abc: "py_float ''abc'' = None"
  by (simp add: py_float_eval)

lemmas py_int_eval = py_int_def split_sign_def is_digit_def nat_of_digits_def digit_val_def

lemmas col_names =
  name_col_def importance_col_def spend_col_def risk_col_def revenue_col_def pct_col_def

lemma group_thousands_small: "length ds \<le> 3 \<Longrightarrow> group_thousands ds = ds"
  by (subst group_thousands.simps) simp

lemma group_thousands_big:
  "3 < length ds \<Longrightarrow>
   group_thousands ds = group_thousands (take (length ds - 3) ds) @ '','' @ drop (length ds - 3) ds"
  by (subst group_thousands.simps) simp

lemmas fmt_eval =
  fmt_1f_def fmt_comma_0f_def round_half_even_def group_thousands_small group_thousands_big

lemma scale_down_stop: "x < 2 ^ 53 \<Longrightarrow> scale_down x e = (x, e)"
  by (subst scale_down.simps) simp

lemma scale_down_step: "2 ^ 53 \<le> x \<Longrightarrow> scale_down x e = scale_down (x / 2) (e + 1)"
  by (subst scale_down.simps) simp

lemma scale_up_stop: "2 ^ 52 \<le> x \<Longrightarrow> scale_up x e = (x, e)"
  by (subst scale_up.simps) simp

lemma scale_up_bottom: "e \<le> - 1074 \<Longrightarrow> scale_up x e = (x, e)"
  by (subst scale_up.simps) simp

lemma scale_up_step:
  "x < 2 ^ 52 \<Longrightarrow> - 1074 < e \<Longrightarrow> scale_up x e = scale_up (2 * x) (e - 1)"
  by (subst scale_up.simps) simp

lemma risk_line_eval:
  "0 < n \<Longrightarrow>
   risk_line fs n (risk, count) =
     Inr (bullet @
          (case map_of risk_labels (astype_str fs risk) of
             None \<Rightarrow> astype_str fs risk | Some l \<Rightarrow> l) @
          '': '' @ str_nat count @ '' clients ('' @
          fmt_1f (float64 (float64 (real count / real n) * 100)) @ ''%)'')"
  by (simp add: risk_line_def Let_def split: option.splits)

lemmas float64_eval =
  float64_def scale_down_stop scale_down_step scale_up_stop scale_up_bottom scale_up_step
  round_half_even_def

section \<open>The embedded table\<close>

lemma demo_lines:
  "split_on newline DEMO_DATA =
    [''Client_Name,Strategic_Importance_(1-5),Spend_Potential_(1-5),Relationship_Risk_(R/A/G),FY25_Revenue,%_of_Total_Revenue'',
     ''Arctic Tours,1,2,R,200000,28%'',
     ''Blackpool Tower,1,2,A,5000,1%'',
     ''Crest Hotels,4,1,G,35000,5%'',
     ''Dan Air,4,5,A,26500,4%'',
     ''EasyJetter,5,4,G,30000,4%'',
     ''Finland Tourist Board,1,4,A,60000,8%'',
     ''Grange Hotel Group,3,3,R,45000,6%'',
     ''Hotelfinance.com,4,2,A,92500,13%'',
     ''Iceland Tours,5,1,R,69500,10%'',
     ''Jupiter Travel Ltd,1,1,A,8500,1%'',
     ''Kenyan Safari Group,2,2,A,16000,2%'',
     ''Lapland Holidays,4,3,G,16000,2%'',
     ''Monte Carlo Yachting Group,5,5,G,105000,15%'']"
  by (simp add: DEMO_DATA_def newline_def)

lemma load_demo_data_value: "load_demo_data = Inr demo_raw"
  unfolding load_demo_data_def read_csv_def demo_lines demo_raw_def
  by (simp add: infer_column_def py_int_eval py_float_def upt_rec [of _ 6] col_names)

lemma demo_table_value: "demo_table py_float fs = Inr demo_clean"
  unfolding demo_table_def load_demo_data_value demo_clean_def
  by (simp add: clean_percentage_column_def demo_raw_def col_names str_replace_pct py_float_eval)

lemma demo_len: "len_df demo_clean = 13"
  by (simp add: demo_clean_def demo_raw_def len_df_def col_names)

lemma demo_high_risk: "high_risk_count demo_clean = Inr 3"
  by (simp add: high_risk_count_def column_def demo_clean_def demo_raw_def col_names update_conv')

lemma demo_revenue: "total_revenue demo_clean = Inr 709000"
  by (simp add: total_revenue_def column_def demo_clean_def demo_raw_def col_names update_conv'
      cell_num_def)

lemma fmt_709000: "fmt_comma_0f 709000 = ''709,000''"
  by (simp add: fmt_eval str_eval)

lemma demo_red_clients:
  "map fst (filter (\<lambda>(n, k). k = CStr ''R'')
      (zip (the (map_of demo_clean name_col)) (the (map_of demo_clean risk_col)))) =
   [CStr ''Arctic Tours'', CStr ''Grange Hotel Group'', CStr ''Iceland Tours'']"
  by (simp add: demo_clean_def demo_raw_def col_names update_conv')

text \<open>
  Claim C2, as the code has it. For the embedded table of 13 rows, as \<open>main\<close> reads and
  cleans it, the summary is: 13 clients; 3 records whose relationship risk is \<open>R\<close>
  (Arctic Tours, Grange Hotel Group and Iceland Tours); and 709,000 as the sum of the
  \<open>FY25_Revenue\<close> column. The first three metrics of the page show these values.
\<close>

theorem demo_summary_statistics:
  "demo_table py_float fs = Inr demo_clean
   \<and> len_df demo_clean = 13
   \<and> high_risk_count demo_clean = Inr 3
   \<and> map fst (filter (\<lambda>(n, k). k = CStr ''R'')
        (zip (the (map_of demo_clean name_col)) (the (map_of demo_clean risk_col)))) =
       [CStr ''Arctic Tours'', CStr ''Grange Hotel Group'', CStr ''Iceland Tours'']
   \<and> total_revenue demo_clean = Inr 709000
   \<and> take 3 (data_summary fs demo_clean) =
       [StMetric ''Total Clients'' ''13'',
        StMetric ''Total Revenue'' (pound @ ''709,000''),
        StMetric ''High Risk Clients'' ''3'']"
proof (intro conjI)
  show "demo_table py_float fs = Inr demo_clean" by (rule demo_table_value)
  show "len_df demo_clean = 13" by (rule demo_len)
  show "high_risk_count demo_clean = Inr 3" by (rule demo_high_risk)
  show "total_revenue demo_clean = Inr 709000" by (rule demo_revenue)
  show "map fst (filter (\<lambda>(n, k). k = CStr ''R'')
        (zip (the (map_of demo_clean name_col)) (the (map_of demo_clean risk_col)))) =
       [CStr ''Arctic Tours'', CStr ''Grange Hotel Group'', CStr ''Iceland Tours'']"
    by (rule demo_red_clients)
  show "take 3 (data_summary fs demo_clean) =
       [StMetric ''Total Clients'' ''13'',
        StMetric ''Total Revenue'' (pound @ ''709,000''),
        StMetric ''High Risk Clients'' ''3'']"
    by (simp add: data_summary_def demo_len demo_revenue demo_high_risk fmt_709000 str_eval
        split: sum.splits)
qed

text \<open>
  The claim as the specification states it, a count of 4 for \<open>R\<close> and a sum of 708,500,
  does not hold of the embedded table.
\<close>

theorem demo_summary_counterexample:
  "\<not> (\<exists>df. demo_table py_float str_float_integral = Inr df \<and> high_risk_count df = Inr 4)
   \<and> \<not> (\<exists>df. demo_table py_float str_float_integral = Inr df \<and> total_revenue df = Inr 708500)"
  by (simp add: demo_table_value demo_high_risk demo_revenue)

section \<open>Removing the percent sign\<close>

lemma series_astype_float_floats:
  "series_astype_float pf ss = Inr col \<Longrightarrow> \<exists>xs. col = map CFloat xs \<and> map pf ss = map Some xs"
proof (induction ss arbitrary: col)
  case Nil
  then show ?case by simp
next
  case (Cons s ss)
  from Cons.prems obtain x col' where x: "pf s = Some x"
    and col': "series_astype_float pf ss = Inr col'" and col: "col = CFloat x # col'"
    by (auto split: option.splits sum.splits)
  from Cons.IH [OF col'] obtain xs where "col' = map CFloat xs" "map pf ss = map Some xs"
    by blast
  with x col have "col = map CFloat (x # xs) \<and> map pf (s # ss) = map Some (x # xs)"
    by simp
  then show ?case by blast
qed

lemma series_astype_float_ok:
  "map pf ss = map Some xs \<Longrightarrow> series_astype_float pf ss = Inr (map CFloat xs)"
proof (induction ss arbitrary: xs)
  case Nil
  then show ?case by simp
next
  case (Cons s ss)
  then obtain y ys where xs: "xs = y # ys" by (cases xs) auto
  with Cons.prems have "pf s = Some y" "map pf ss = map Some ys" by auto
  with Cons.IH [of ys] xs show ?case by simp
qed

text \<open>
  Claim C10. \<open>clean_percentage_column\<close> deletes every \<open>%\<close> of a percentage cell,
  wherever it stands, before the text goes to \<open>float\<close>: the replacement keeps exactly the
  characters that are not \<open>%\<close>, a column of cells is read from those texts, cell by
  cell, and the cells \<open>%28\<close> and \<open>2%8\<close> both become the float 28 instead of raising.
\<close>

theorem clean_removes_every_percent_sign:
  "str_replace ''%'' '''' s = filter (\<lambda>c. c \<noteq> CHR ''%'') s
   \<and> CHR ''%'' \<notin> set (str_replace ''%'' '''' s)
   \<and> clean_percentage_column pf fs [(pct_col, map CStr ss)] =
       (case series_astype_float pf (map (filter (\<lambda>c. c \<noteq> CHR ''%'')) ss) of
          Inl e \<Rightarrow> Inl e
        | Inr col \<Rightarrow> Inr [(pct_col, col)])
   \<and> clean_percentage_column pf fs [(pct_col, [CStr s])] =
       (case pf (filter (\<lambda>c. c \<noteq> CHR ''%'') s) of
          None \<Rightarrow> Inl (float_error (filter (\<lambda>c. c \<noteq> CHR ''%'') s))
        | Some x \<Rightarrow> Inr [(pct_col, [CFloat x])])
   \<and> clean_percentage_column py_float fs [(pct_col, [CStr ''%28'', CStr ''2%8''])] =
       Inr [(pct_col, [CFloat 28, CFloat 28])]"
proof (intro conjI)
  show "str_replace ''%'' '''' s = filter (\<lambda>c. c \<noteq> CHR ''%'') s"
    by (rule str_replace_char)
  then show "CHR ''%'' \<notin> set (str_replace ''%'' '''' s)"
    by simp
  show "clean_percentage_column pf fs [(pct_col, map CStr ss)] =
       (case series_astype_float pf (map (filter (\<lambda>c. c \<noteq> CHR ''%'')) ss) of
          Inl e \<Rightarrow> Inl e
        | Inr col \<Rightarrow> Inr [(pct_col, col)])"
    by (simp add: clean_percentage_column_def str_replace_pct comp_def split: sum.splits)
  show "clean_percentage_column pf fs [(pct_col, [CStr s])] =
       (case pf (filter (\<lambda>c. c \<noteq> CHR ''%'') s) of
          None \<Rightarrow> Inl (float_error (filter (\<lambda>c. c \<noteq> CHR ''%'') s))
        | Some x \<Rightarrow> Inr [(pct_col, [CFloat x])])"
    by (simp add: clean_percentage_column_def str_replace_char split: option.splits)
  show "clean_percentage_column py_float fs [(pct_col, [CStr ''%28'', CStr ''2%8''])] =
       Inr [(pct_col, [CFloat 28, CFloat 28])]"
    by (simp add: clean_percentage_column_def str_replace_char py_float_28)
qed

section \<open>Normalising twice\<close>

lemma clean_twice:
  assumes c: "clean_percentage_column pf fs df = Inr df'"
    and rt: "\<And>col x. map_of df' pct_col = Some col \<Longrightarrow> CFloat x \<in> set col \<Longrightarrow>
                pf (str_replace ''%'' '''' (fs x)) = Some x"
  shows "clean_percentage_column pf fs df' = Inr df'"
proof (cases "map_of df pct_col")
  case None
  with c show ?thesis by (simp add: clean_percentage_column_def)
next
  case (Some col)
  with c obtain col' where
    col': "series_astype_float pf (map (str_replace ''%'' '''') (map (astype_str fs) col)) = Inr col'"
    and df': "df' = AList.update pct_col col' df"
    by (auto simp: clean_percentage_column_def split: sum.splits)
  from series_astype_float_floats [OF col'] obtain xs where xs: "col' = map CFloat xs"
    by blast
  have m: "map_of df' pct_col = Some col'"
    by (simp add: df' update_conv')
  have "map pf (map (str_replace ''%'' '''') (map (astype_str fs) col')) = map Some xs"
    using rt [OF m] by (auto simp: xs)
  then have "series_astype_float pf (map (str_replace ''%'' '''') (map (astype_str fs) col')) = Inr col'"
    unfolding xs by (rule series_astype_float_ok)
  with m show ?thesis
    by (simp add: clean_percentage_column_def df')
qed

text \<open>
  Claim C4. Normalising a percentage is idempotent. A column of strings gives the same
  result, float for float and error for error, whether or not each string carries a
  \<open>%\<close> at its end; the strings \<open>28%\<close> and \<open>28\<close> both become the float 28; and cleaning
  a cleaned table gives the same table again, given that \<open>str\<close> of each float in the
  cleaned column reads back as that float (which Python's \<open>str\<close> and \<open>float\<close> promise).
\<close>

theorem percentage_normalization_idempotent:
  "clean_percentage_column pf fs [(pct_col, map (\<lambda>s. CStr (s @ ''%'')) ss)] =
     clean_percentage_column pf fs [(pct_col, map CStr ss)]
   \<and> clean_percentage_column py_float fs [(pct_col, [CStr ''28%'', CStr ''28''])] =
       Inr [(pct_col, [CFloat 28, CFloat 28])]
   \<and> (\<forall>df df'. clean_percentage_column pf fs df = Inr df' \<longrightarrow>
         (\<forall>col x. map_of df' pct_col = Some col \<longrightarrow> CFloat x \<in> set col \<longrightarrow>
            pf (str_replace ''%'' '''' (fs x)) = Some x) \<longrightarrow>
         clean_percentage_column pf fs df' = Inr df')"
proof (intro conjI allI impI)
  show "clean_percentage_column pf fs [(pct_col, map (\<lambda>s. CStr (s @ ''%'')) ss)] =
     clean_percentage_column pf fs [(pct_col, map CStr ss)]"
    by (simp add: clean_percentage_column_def str_replace_pct comp_def split: sum.splits)
  show "clean_percentage_column py_float fs [(pct_col, [CStr ''28%'', CStr ''28''])] =
       Inr [(pct_col, [CFloat 28, CFloat 28])]"
    by (simp add: clean_percentage_column_def str_replace_char py_float_28)
next
  fix df df'
  assume "clean_percentage_column pf fs df = Inr df'"
    and "\<forall>col x. map_of df' pct_col = Some col \<longrightarrow> CFloat x \<in> set col \<longrightarrow>
            pf (str_replace ''%'' '''' (fs x)) = Some x"
  then show "clean_percentage_column pf fs df' = Inr df'"
    by (intro clean_twice) auto
qed

theorem percentage_normalization_idempotent_witness:
  "clean_percentage_column py_float str_float_integral
     [(name_col, [CStr ''a'', CStr ''b'']), (pct_col, [CStr ''28%'', CInt 5])]
     = Inr [(name_col, [CStr ''a'', CStr ''b'']), (pct_col, [CFloat 28, CFloat 5])]
   \<and> py_float (str_replace ''%'' '''' (str_float_integral 28)) = Some 28
   \<and> py_float (str_replace ''%'' '''' (str_float_integral 5)) = Some 5
   \<and> clean_percentage_column py_float str_float_integral
     [(name_col, [CStr ''a'', CStr ''b'']), (pct_col, [CFloat 28, CFloat 5])]
     = Inr [(name_col, [CStr ''a'', CStr ''b'']), (pct_col, [CFloat 28, CFloat 5])]"
proof -
  let ?df = "[(name_col, [CStr ''a'', CStr ''b'']), (pct_col, [CStr ''28%'', CInt 5])]"
  let ?df' = "[(name_col, [CStr ''a'', CStr ''b'']), (pct_col, [CFloat 28, CFloat 5])]"
  have a: "clean_percentage_column py_float str_float_integral ?df = Inr ?df'"
    by (simp add: clean_percentage_column_def pct_col_def name_col_def str_replace_char
        py_float_28 py_float_5 str_eval)
  have r28: "py_float (str_replace ''%'' '''' (str_float_integral 28)) = Some 28"
    by (simp add: str_float_integral_def str_replace_char str_eval py_float_28_0)
  have r5: "py_float (str_replace ''%'' '''' (str_float_integral 5)) = Some 5"
    by (simp add: str_float_integral_def str_replace_char str_eval py_float_5_0)
  have b: "\<forall>col x. map_of ?df' pct_col = Some col \<longrightarrow> CFloat x \<in> set col \<longrightarrow>
            py_float (str_replace ''%'' '''' (str_float_integral x)) = Some x"
    using r28 r5 by (auto simp: pct_col_def name_col_def)
  from percentage_normalization_idempotent [of py_float str_float_integral] a b
  have "clean_percentage_column py_float str_float_integral ?df' = Inr ?df'"
    by blast
  with a r28 r5 show ?thesis by simp
qed

section \<open>Validation of the columns\<close>

lemma missing_columns_set:
  "set (missing_columns df) = set required_columns - set (map fst df)"
  by (auto simp: missing_columns_def)

lemma validate_data_ok_iff:
  "fst (validate_data df) = (set required_columns \<subseteq> set (map fst df))"
proof -
  have "(missing_columns df = []) = (set required_columns \<subseteq> set (map fst df))"
    unfolding missing_columns_def filter_empty_conv by auto
  then show ?thesis by (simp add: validate_data_def)
qed

lemma missing_only_revenue:
  assumes "set required_columns - set (map fst df) = {revenue_col}"
  shows "missing_columns df = [revenue_col]"
proof -
  have key: "\<And>c. c \<in> set required_columns \<Longrightarrow> (c \<notin> set (map fst df)) = (c = revenue_col)"
    using assms by blast
  have "missing_columns df = filter (\<lambda>c. c = revenue_col) required_columns"
    unfolding missing_columns_def by (rule filter_cong [OF refl]) (rule key)
  also have "\<dots> = [revenue_col]"
    by (simp add: required_columns_def col_names)
  finally show ?thesis .
qed

lemma join_required:
  "join '', '' required_columns =
   ''Client_Name, Strategic_Importance_(1-5), Spend_Potential_(1-5), Relationship_Risk_(R/A/G), FY25_Revenue, %_of_Total_Revenue''"
  by (simp add: required_columns_def col_names)

text \<open>
  Claim C3. Validation succeeds exactly when all six required column names are present.
  Otherwise it fails and its message lists every missing required column (the whole set,
  in the order of the required list, not only the first), and the page then shows the
  error, the list of required columns and a warning, and builds no chart and no summary.
  A table that lacks exactly \<open>FY25_Revenue\<close> reports exactly that name.
\<close>

theorem validation_reports_all_missing_columns:
  "fst (validate_data df) = (set required_columns \<subseteq> set (map fst df))
   \<and> set (missing_columns df) = set required_columns - set (map fst df)
   \<and> (\<not> fst (validate_data df) \<longrightarrow>
        validate_data df =
          (False,
           [StError (''Missing required columns: '' @ join '', '' (missing_columns df)),
            StInfo (''Required columns: '' @ join '', '' required_columns)])
        \<and> validate_and_display fs m (Some df) =
          [StError (''Missing required columns: '' @ join '', '' (missing_columns df)),
           StInfo (''Required columns: '' @ join '', '' required_columns),
           StWarning ''Please ensure your data has all required columns.''])
   \<and> (set required_columns - set (map fst df) = {revenue_col} \<longrightarrow>
        missing_columns df = [revenue_col]
        \<and> hd (snd (validate_data df)) = StError ''Missing required columns: FY25_Revenue'')"
proof (intro conjI impI)
  show "fst (validate_data df) = (set required_columns \<subseteq> set (map fst df))"
    by (rule validate_data_ok_iff)
  show "set (missing_columns df) = set required_columns - set (map fst df)"
    by (rule missing_columns_set)
next
  assume "\<not> fst (validate_data df)"
  then have m: "missing_columns df \<noteq> []"
    by (auto simp: validate_data_def split: if_splits)
  then show "validate_data df =
          (False,
           [StError (''Missing required columns: '' @ join '', '' (missing_columns df)),
            StInfo (''Required columns: '' @ join '', '' required_columns)])"
    by (simp add: validate_data_def)
  from m show "validate_and_display fs m (Some df) =
          [StError (''Missing required columns: '' @ join '', '' (missing_columns df)),
           StInfo (''Required columns: '' @ join '', '' required_columns),
           StWarning ''Please ensure your data has all required columns.'']"
    by (simp add: validate_and_display_def validate_data_def)
next
  assume a: "set required_columns - set (map fst df) = {revenue_col}"
  then show m: "missing_columns df = [revenue_col]"
    by (rule missing_only_revenue)
  then show "hd (snd (validate_data df)) = StError ''Missing required columns: FY25_Revenue''"
    by (simp add: validate_data_def revenue_col_def)
qed

theorem validation_reports_all_missing_columns_witness:
  "\<not> fst (validate_data no_revenue_table)
   \<and> set required_columns - set (map fst no_revenue_table) = {revenue_col}
   \<and> missing_columns no_revenue_table = [revenue_col]
   \<and> validate_and_display str_float_integral UserData (Some no_revenue_table) =
       [StError ''Missing required columns: FY25_Revenue'',
        StInfo ''Required columns: Client_Name, Strategic_Importance_(1-5), Spend_Potential_(1-5), Relationship_Risk_(R/A/G), FY25_Revenue, %_of_Total_Revenue'',
        StWarning ''Please ensure your data has all required columns.'']"
proof -
  have s: "set required_columns - set (map fst no_revenue_table) = {revenue_col}"
    by (auto simp: required_columns_def no_revenue_table_def col_names)
  have n: "\<not> fst (validate_data no_revenue_table)"
    using s by (simp add: validate_data_ok_iff del: Diff_eq_empty_iff) blast
  from validation_reports_all_missing_columns [of no_revenue_table str_float_integral UserData] s n
  show ?thesis
    by (simp add: join_required revenue_col_def)
qed

section \<open>The caller's table is not changed\<close>

lemma filter_update_other:
  "filter (\<lambda>p. fst p \<noteq> k) (AList.update k v al) = filter (\<lambda>p. fst p \<noteq> k) al"
  by (induction al) auto

lemma clean_other_columns:
  assumes "clean_percentage_column pf fs df = Inr df'"
  shows "map fst df' = map fst df
    \<and> filter (\<lambda>p. fst p \<noteq> pct_col) df' = filter (\<lambda>p. fst p \<noteq> pct_col) df"
proof (cases "map_of df pct_col")
  case None
  with assms show ?thesis
    by (simp add: clean_percentage_column_def)
next
  case (Some col)
  then have "(pct_col, col) \<in> set df"
    by (rule map_of_SomeD)
  then have k: "pct_col \<in> set (map fst df)"
    by force
  from Some assms obtain col' where "df' = AList.update pct_col col' df"
    by (auto simp: clean_percentage_column_def split: sum.splits)
  with k show ?thesis
    by (simp only: update_keys filter_update_other if_True simp_thms)
qed

lemma clean_obj_value:
  assumes "r < length h"
  shows "clean_percentage_column_obj pf fs r h =
     (case clean_percentage_column pf fs (h ! r) of
        Inl e \<Rightarrow> (Inl e, h @ [h ! r])
      | Inr df' \<Rightarrow> (Inr (length h), h @ [df']))"
  using assms
  by (simp add: clean_percentage_column_obj_def clean_percentage_column_def df_copy_def
      df_setitem_def nth_append split: option.splits sum.splits)

text \<open>
  Claim C9. \<open>clean_percentage_column\<close> is a pure transform. Called on the table at \<open>r\<close>
  of a store, it leaves every object of the store, the caller's table among them, as it
  was, and only adds one object; when it returns, the returned table is that new object,
  it has the value the function computes from the caller's table, the same column names
  in the same order, and every column other than \<open>%_of_Total_Revenue\<close> unchanged.
\<close>

theorem clean_percentage_column_is_pure:
  assumes "r < length h"
    and "clean_percentage_column_obj pf fs r h = (res, h')"
  shows "take (length h) h' = h
     \<and> h' ! r = h ! r
     \<and> (\<forall>df. res = Inr df \<longrightarrow>
          df = length h \<and> length h' = Suc (length h)
          \<and> clean_percentage_column pf fs (h ! r) = Inr (h' ! df)
          \<and> map fst (h' ! df) = map fst (h ! r)
          \<and> filter (\<lambda>p. fst p \<noteq> pct_col) (h' ! df) = filter (\<lambda>p. fst p \<noteq> pct_col) (h ! r))"
proof (cases "clean_percentage_column pf fs (h ! r)")
  case (Inl e)
  with assms have "res = Inl e" "h' = h @ [h ! r]"
    by (simp_all add: clean_obj_value)
  with assms(1) show ?thesis by (simp add: nth_append)
next
  case (Inr df')
  with assms have res: "res = Inr (length h)" and h': "h' = h @ [df']"
    by (simp_all add: clean_obj_value)
  from clean_other_columns [OF Inr] res h' assms(1) Inr show ?thesis
    by (simp add: nth_append)
qed

theorem clean_percentage_column_is_pure_witness:
  "(0::nat) < length one_table_store
   \<and> clean_percentage_column_obj py_float str_float_integral 0 one_table_store =
       (Inr 1, [[(name_col, [CStr ''Acme'']), (pct_col, [CStr ''28%''])],
                [(name_col, [CStr ''Acme'']), (pct_col, [CFloat 28])]])
   \<and> take (length one_table_store)
        [[(name_col, [CStr ''Acme'']), (pct_col, [CStr ''28%''])],
         [(name_col, [CStr ''Acme'']), (pct_col, [CFloat 28])]] = one_table_store"
proof -
  have l: "(0::nat) < length one_table_store"
    by (simp add: one_table_store_def)
  have c: "clean_percentage_column_obj py_float str_float_integral 0 one_table_store =
       (Inr 1, [[(name_col, [CStr ''Acme'']), (pct_col, [CStr ''28%''])],
                [(name_col, [CStr ''Acme'']), (pct_col, [CFloat 28])]])"
    by (subst clean_obj_value [OF l])
      (simp add: one_table_store_def clean_percentage_column_def col_names str_replace_pct
        py_float_28)
  from clean_percentage_column_is_pure [OF l c] l c show ?thesis
    by (simp add: one_table_store_def)
qed

section \<open>The table with no rows\<close>

lemma validated_columns:
  assumes "fst (validate_data df)" and "c \<in> set required_columns"
  shows "\<exists>col. column df c = Inr col"
proof -
  from assms(1) have "missing_columns df = []"
    by (auto simp: validate_data_def split: if_splits)
  with assms(2) have "c \<in> set (map fst df)"
    unfolding missing_columns_def filter_empty_conv by auto
  then have "map_of df c \<noteq> None"
    by (simp add: map_of_eq_None_iff)
  then show ?thesis
    by (auto simp: column_def)
qed

lemma fmt_comma_0: "fmt_comma_0f 0 = ''0''"
  by (simp add: fmt_eval str_eval)

lemma empty_column:
  assumes "fst (validate_data df)" and "\<forall>c \<in> set df. snd c = []"
    and "c \<in> set required_columns"
  shows "column df c = Inr []"
proof -
  from validated_columns [OF assms(1) assms(3)] obtain col where col: "column df c = Inr col"
    by blast
  then have "map_of df c = Some col"
    by (simp add: column_def split: option.splits)
  then have "(c, col) \<in> set df"
    by (rule map_of_SomeD)
  with assms(2) have "col = []"
    by force
  with col show ?thesis by simp
qed

lemma empty_len:
  assumes "fst (validate_data df)" and "\<forall>c \<in> set df. snd c = []"
  shows "len_df df = 0"
proof (cases df)
  case Nil
  then show ?thesis by (simp add: len_df_def)
next
  case (Cons c cs)
  with assms(2) have "snd c = []" by simp
  with Cons show ?thesis
    by (cases c) (simp add: len_df_def)
qed

text \<open>
  Claim C7. For a validated table with no rows the chart is built, with an empty list
  of points, and the page shows it and the four metrics and nothing more: no exception
  ends the run and no line of the risk distribution divides by the row count. The mean
  of the strategic importance is NaN, and its metric reads \<open>nan\<close>, not a number.
\<close>

theorem empty_table_summary:
  assumes "fst (validate_data df)" and "\<forall>c \<in> set df. snd c = []"
  shows "\<exists>fig. create_scatter_plot df = Inr fig
     \<and> points fig = []
     \<and> avg_strategic_importance df = Inr None
     \<and> validate_and_display fs m (Some df) =
         [StPlotlyChart fig,
          StMetric ''Total Clients'' ''0'',
          StMetric ''Total Revenue'' (pound @ ''0''),
          StMetric ''High Risk Clients'' ''0'',
          StMetric ''Avg Strategic Importance'' ''nan'']"
proof -
  note e = empty_column [OF assms]
  have cols: "column df name_col = Inr []" "column df importance_col = Inr []"
    "column df spend_col = Inr []" "column df risk_col = Inr []"
    "column df revenue_col = Inr []" "column df pct_col = Inr []"
    by (rule e, simp add: required_columns_def)+
  have pts: "scatter_points df = Inr []"
    by (simp add: scatter_points_def cols)
  have rows: "hover_rows df = Inr []"
    by (simp add: hover_rows_def cols)
  have avg: "avg_strategic_importance df = Inr None"
    by (simp add: avg_strategic_importance_def cols)
  have rev: "total_revenue df = Inr 0"
    by (simp add: total_revenue_def cols)
  have hr: "high_risk_count df = Inr 0"
    by (simp add: high_risk_count_def cols)
  have v: "validate_data df = (True, [])"
    using assms(1) by (auto simp: validate_data_def split: if_splits)
  have summary: "data_summary fs df =
         [StMetric ''Total Clients'' ''0'',
          StMetric ''Total Revenue'' (pound @ ''0''),
          StMetric ''High Risk Clients'' ''0'',
          StMetric ''Avg Strategic Importance'' ''nan'']"
    by (simp add: data_summary_def empty_len [OF assms] rev hr avg cols fmt_comma_0 str_eval
        fmt_1f_nan_def value_counts_def)
  show ?thesis
    by (simp add: create_scatter_plot_def pts rows avg validate_and_display_def v summary)
qed

lemma header_only_file:
  "load_data_from_file py_float str_float_integral
     (read_csv ''Client_Name,Strategic_Importance_(1-5),Spend_Potential_(1-5),Relationship_Risk_(R/A/G),FY25_Revenue,%_of_Total_Revenue'') =
   (Some empty_table, [])"
  by (simp add: load_data_from_file_def read_csv_def newline_def infer_column_def
      upt_rec [of _ 6] clean_percentage_column_def empty_table_def col_names)

theorem empty_table_summary_witness:
  "load_data_from_file py_float str_float_integral
     (read_csv ''Client_Name,Strategic_Importance_(1-5),Spend_Potential_(1-5),Relationship_Risk_(R/A/G),FY25_Revenue,%_of_Total_Revenue'') =
   (Some empty_table, [])
   \<and> fst (validate_data empty_table)
   \<and> list_all (\<lambda>c. snd c = []) empty_table
   \<and> (\<exists>fig. create_scatter_plot empty_table = Inr fig \<and> points fig = []
        \<and> validate_and_display str_float_integral UserData (Some empty_table) =
         [StPlotlyChart fig,
          StMetric ''Total Clients'' ''0'',
          StMetric ''Total Revenue'' (pound @ ''0''),
          StMetric ''High Risk Clients'' ''0'',
          StMetric ''Avg Strategic Importance'' ''nan''])"
proof -
  have v: "fst (validate_data empty_table)"
    by (simp add: validate_data_def missing_columns_def required_columns_def
        empty_table_def col_names)
  have e: "\<forall>c \<in> set empty_table. snd c = []"
    by (simp add: empty_table_def)
  from empty_table_summary [OF v e, of str_float_integral UserData] v e show ?thesis
    by (auto simp: list_all_iff header_only_file)
qed

section \<open>The constants of the chart\<close>

lemma validated_points:
  assumes "fst (validate_data df)"
  shows "\<exists>ps. column df pct_col = Inr ps
     \<and> (if list_all valid_size ps
        then \<exists>pts. scatter_points df = Inr pts
               \<and> (\<forall>p \<in> set pts. pt_color p = risk_color (pt_risk p))
        else scatter_points df = Inl (ValueError ''a size of a marker is negative or not a number''))
     \<and> (\<exists>rows. hover_rows df = Inr rows)"
proof -
  note c = validated_columns [OF assms]
  from c [of name_col] obtain ns where ns: "column df name_col = Inr ns"
    by (auto simp: required_columns_def)
  from c [of importance_col] obtain imps where imps: "column df importance_col = Inr imps"
    by (auto simp: required_columns_def)
  from c [of spend_col] obtain ss where ss: "column df spend_col = Inr ss"
    by (auto simp: required_columns_def)
  from c [of risk_col] obtain ks where ks: "column df risk_col = Inr ks"
    by (auto simp: required_columns_def)
  from c [of revenue_col] obtain vs where vs: "column df revenue_col = Inr vs"
    by (auto simp: required_columns_def)
  from c [of pct_col] obtain ps where ps: "column df pct_col = Inr ps"
    by (auto simp: required_columns_def)
  have "\<forall>p \<in> set (map (\<lambda>(i, s, k, p).
                      \<lparr>pt_x = s, pt_y = i, pt_size = p, pt_risk = k, pt_color = risk_color k\<rparr>) rows).
          pt_color p = risk_color (pt_risk p)"
    for rows :: "(cell \<times> cell \<times> cell \<times> cell) list"
    by auto
  then show ?thesis
    by (simp add: scatter_points_def hover_rows_def ns imps ss ks vs ps)
qed

text \<open>
  Claim C6. For every validated table, \<open>px.scatter\<close> either refuses a revenue share as
  the size of a marker (one that is negative or no number) and no chart exists, or the
  chart is built, and then it holds the fixed layout: exactly four rectangles, which
  with the quadrant label set inside each are Bronze (0.5,3,3,5.5,lightgray,0.15),
  Platinum (3,3,5.5,5.5,lightblue,0.15), Silver (0.5,0.5,3,3,lightyellow,0.15) and Gold
  (3,0.5,5.5,3,lightgreen,0.15); both axes with the range [0.5,5.5] and a tick every 1;
  the divider lines at \<open>x = 3\<close> and \<open>y = 3\<close>; and for every point the colour that the
  lookup R, A, G to #FF4444, #FFA500, #00AA00 gives its risk code, which is none for any
  other code.
\<close>

theorem chart_layout_constants:
  assumes "fst (validate_data df)"
  shows "(\<exists>ps. column df pct_col = Inr ps
       \<and> (if list_all valid_size ps
          then \<exists>fig. create_scatter_plot df = Inr fig
          else create_scatter_plot df =
                 Inl (ValueError ''a size of a marker is negative or not a number'')))
     \<and> (\<forall>fig. create_scatter_plot df = Inr fig \<longrightarrow>
         map (\<lambda>r. (labels_in r (annotations fig), r)) (filter is_rect (shapes fig)) =
           [([''<b>Bronze</b>''], Rect 0.5 3 3 5.5 ''lightgray'' 0.15),
            ([''<b>Platinum</b>''], Rect 3 3 5.5 5.5 ''lightblue'' 0.15),
            ([''<b>Silver</b>''], Rect 0.5 0.5 3 3 ''lightyellow'' 0.15),
            ([''<b>Gold</b>''], Rect 3 0.5 5.5 3 ''lightgreen'' 0.15)]
       \<and> axis_range (xaxis fig) = (0.5, 5.5) \<and> dtick (xaxis fig) = 1
       \<and> axis_range (yaxis fig) = (0.5, 5.5) \<and> dtick (yaxis fig) = 1
       \<and> ref_lines fig = [VLine 3 ''solid'' ''darkgray'' 2 0.7, HLine 3 ''solid'' ''darkgray'' 2 0.7]
       \<and> (\<forall>p \<in> set (points fig). pt_color p = risk_color (pt_risk p)))
     \<and> risk_color (CStr ''R'') = Some ''#FF4444''
     \<and> risk_color (CStr ''A'') = Some ''#FFA500''
     \<and> risk_color (CStr ''G'') = Some ''#00AA00''
     \<and> (\<forall>s. s \<notin> {''R'', ''A'', ''G''} \<longrightarrow> risk_color (CStr s) = None)"
proof -
  from validated_points [OF assms] obtain ps rows where
    ps: "column df pct_col = Inr ps"
    and pts: "if list_all valid_size ps
        then \<exists>pts. scatter_points df = Inr pts
               \<and> (\<forall>p \<in> set pts. pt_color p = risk_color (pt_risk p))
        else scatter_points df = Inl (ValueError ''a size of a marker is negative or not a number'')"
    and rows: "hover_rows df = Inr rows"
    by blast
  have rects: "map (\<lambda>r. (labels_in r (quadrant_labels @ axis_arrows_and_labels), r)) quadrant_rects =
         [([''<b>Bronze</b>''], Rect 0.5 3 3 5.5 ''lightgray'' 0.15),
          ([''<b>Platinum</b>''], Rect 3 3 5.5 5.5 ''lightblue'' 0.15),
          ([''<b>Silver</b>''], Rect 0.5 0.5 3 3 ''lightyellow'' 0.15),
          ([''<b>Gold</b>''], Rect 3 0.5 5.5 3 ''lightgreen'' 0.15)]"
    by (simp add: quadrant_rects_def labels_in_def quadrant_labels_def axis_arrows_and_labels_def)
  have only: "filter is_rect (quadrant_rects @
      [Line 0.5 0.5 5.5 0.5 ''black'' 3, Line 0.5 0.5 0.5 5.5 ''black'' 3]) = quadrant_rects"
    by (simp add: quadrant_rects_def)
  have colors: "risk_color (CStr ''R'') = Some ''#FF4444''"
    "risk_color (CStr ''A'') = Some ''#FFA500''"
    "risk_color (CStr ''G'') = Some ''#00AA00''"
    "\<forall>s. s \<notin> {''R'', ''A'', ''G''} \<longrightarrow> risk_color (CStr s) = None"
    by (simp_all add: risk_color_def color_map_def)
  have built: "\<exists>ps. column df pct_col = Inr ps
       \<and> (if list_all valid_size ps
          then \<exists>fig. create_scatter_plot df = Inr fig
          else create_scatter_plot df =
                 Inl (ValueError ''a size of a marker is negative or not a number''))"
    using ps pts rows by (auto simp: create_scatter_plot_def split: if_splits)
  have layout: "map (\<lambda>r. (labels_in r (annotations fig), r)) (filter is_rect (shapes fig)) =
           [([''<b>Bronze</b>''], Rect 0.5 3 3 5.5 ''lightgray'' 0.15),
            ([''<b>Platinum</b>''], Rect 3 3 5.5 5.5 ''lightblue'' 0.15),
            ([''<b>Silver</b>''], Rect 0.5 0.5 3 3 ''lightyellow'' 0.15),
            ([''<b>Gold</b>''], Rect 3 0.5 5.5 3 ''lightgreen'' 0.15)]
       \<and> axis_range (xaxis fig) = (0.5, 5.5) \<and> dtick (xaxis fig) = 1
       \<and> axis_range (yaxis fig) = (0.5, 5.5) \<and> dtick (yaxis fig) = 1
       \<and> ref_lines fig = [VLine 3 ''solid'' ''darkgray'' 2 0.7, HLine 3 ''solid'' ''darkgray'' 2 0.7]
       \<and> (\<forall>p \<in> set (points fig). pt_color p = risk_color (pt_risk p))"
    if fig: "create_scatter_plot df = Inr fig" for fig
  proof -
    from fig obtain p where p: "scatter_points df = Inr p"
      by (auto simp: create_scatter_plot_def split: sum.splits)
    with pts have col: "\<forall>q \<in> set p. pt_color q = risk_color (pt_risk q)"
      by (auto split: if_splits)
    from fig p rows have "fig = \<lparr>points = p, customdata = rows,
               shapes = quadrant_rects @
                 [Line 0.5 0.5 5.5 0.5 ''black'' 3, Line 0.5 0.5 0.5 5.5 ''black'' 3],
               annotations = quadrant_labels @ axis_arrows_and_labels,
               ref_lines = [VLine 3 ''solid'' ''darkgray'' 2 0.7, HLine 3 ''solid'' ''darkgray'' 2 0.7],
               xaxis = \<lparr>axis_range = (0.5, 5.5), dtick = 1,
                 axis_title = ''<b>SPEND POTENTIAL</b><br>(how much budget available to spend with the agency?)''\<rparr>,
               yaxis = \<lparr>axis_range = (0.5, 5.5), dtick = 1,
                 axis_title = ''<b>STRATEGIC IMPORTANCE</b><br>(how important is this account to the agency?)''\<rparr>,
               title = ''<b>Client Categorisation Matrix</b>''\<rparr>"
      by (simp add: create_scatter_plot_def)
    with rects only col show ?thesis
      by simp
  qed
  from built layout colors show ?thesis
    by blast
qed

theorem chart_layout_constants_witness:
  "fst (validate_data one_client_table)
   \<and> (\<exists>fig. create_scatter_plot one_client_table = Inr fig
        \<and> filter is_rect (shapes fig) = quadrant_rects
        \<and> axis_range (xaxis fig) = (0.5, 5.5)
        \<and> map pt_color (points fig) = [Some ''#00AA00''])
   \<and> fst (validate_data negative_share_table)
   \<and> create_scatter_plot negative_share_table =
       Inl (ValueError ''a size of a marker is negative or not a number'')"
proof -
  have v: "fst (validate_data one_client_table)"
    by (simp add: validate_data_def missing_columns_def required_columns_def
        one_client_table_def col_names)
  have ps: "column one_client_table pct_col = Inr [CFloat 100]"
    by (simp add: column_def one_client_table_def col_names)
  from chart_layout_constants [OF v] ps obtain fig where
    fig: "create_scatter_plot one_client_table = Inr fig"
    and ax: "axis_range (xaxis fig) = (0.5, 5.5)"
    by (auto simp: valid_size_def cell_num_def)
  then have "filter is_rect (shapes fig) = quadrant_rects
      \<and> map pt_color (points fig) = [Some ''#00AA00'']"
    by (auto simp: create_scatter_plot_def scatter_points_def hover_rows_def column_def
        one_client_table_def col_names quadrant_rects_def risk_color_def color_map_def
        valid_size_def cell_num_def)
  with fig ax have one: "\<exists>fig. create_scatter_plot one_client_table = Inr fig
        \<and> filter is_rect (shapes fig) = quadrant_rects
        \<and> axis_range (xaxis fig) = (0.5, 5.5)
        \<and> map pt_color (points fig) = [Some ''#00AA00'']"
    by (intro conjI exI [of _ fig]) simp_all
  have w: "fst (validate_data negative_share_table)"
    by (simp add: validate_data_def missing_columns_def required_columns_def
        negative_share_table_def col_names)
  have qs: "column negative_share_table pct_col = Inr [CFloat (- 5)]"
    by (simp add: column_def negative_share_table_def col_names)
  from chart_layout_constants [OF w] qs have neg: "create_scatter_plot negative_share_table =
       Inl (ValueError ''a size of a marker is negative or not a number'')"
    by (auto simp: valid_size_def cell_num_def)
  from v one w neg show ?thesis
    by blast
qed

section \<open>The risk distribution\<close>

lemma distinct_map_insort_key:
  "distinct (map g (insort_key f x xs)) = (g x \<notin> g ` set xs \<and> distinct (map g xs))"
  by (induction xs) (auto simp: set_insort_key)

lemma distinct_map_sort_key:
  "distinct (map g (sort_key f xs)) = distinct (map g xs)"
  by (induction xs) (auto simp: distinct_map_insort_key)

lemma value_counts_keys:
  "set (map fst (value_counts col)) = set col" "distinct (map fst (value_counts col))"
  by (auto simp: value_counts_def distinct_map_sort_key comp_def image_iff)

lemma value_counts_counts:
  assumes "rc \<in> set (value_counts col)"
  shows "snd rc = count_list col (fst rc) \<and> 0 < snd rc"
proof -
  from assms obtain v where "v \<in> set col" "rc = (v, count_list col v)"
    by (auto simp: value_counts_def)
  then show ?thesis
    using count_list_0_iff [of col v] by auto
qed

lemma risk_distribution_lines:
  assumes "0 < n"
  shows "risk_distribution fs n rcs =
     map (\<lambda>rc. StWrite (bullet @
            (case map_of risk_labels (astype_str fs (fst rc)) of
               None \<Rightarrow> astype_str fs (fst rc) | Some l \<Rightarrow> l) @
            '': '' @ str_nat (snd rc) @ '' clients ('' @
            fmt_1f (float64 (float64 (real (snd rc) / real n) * 100)) @ ''%)'')) rcs"
  using assms
  by (induction rcs) (auto simp: risk_line_def Let_def split: prod.splits option.splits)

lemma digit_char_is_digit: "m < 10 \<Longrightarrow> is_digit (digit_char m)"
proof -
  assume "m < 10"
  then have "m \<in> {0, 1, 2, 3, 4, 5, 6, 7, 8, 9}"
    by auto
  then show ?thesis
    by (auto simp: digit_char_def is_digit_def)
qed

lemma str_nat_digits: "str_nat k \<noteq> [] \<and> list_all is_digit (str_nat k)"
proof (induction k rule: str_nat.induct)
  case (1 n)
  show ?case
  proof (cases "n < 10")
    case True
    then show ?thesis
      by (simp add: str_nat_small digit_char_is_digit)
  next
    case False
    with 1 show ?thesis
      by (simp add: str_nat_big digit_char_is_digit)
  qed
qed

lemma fmt_1f_shape:
  assumes "0 \<le> x"
  shows "\<exists>ds d. fmt_1f x = ds @ ''.'' @ [d] \<and> ds \<noteq> [] \<and> list_all is_digit ds \<and> is_digit d"
proof -
  let ?t = "nat (round_half_even (\<bar>x\<bar> * 10))"
  from assms have "fmt_1f x = str_nat (?t div 10) @ ''.'' @ [digit_char (?t mod 10)]"
    by (simp add: fmt_1f_def Let_def)
  moreover have "is_digit (digit_char (?t mod 10))"
    by (rule digit_char_is_digit) simp
  ultimately show ?thesis
    using str_nat_digits [of "?t div 10"] by blast
qed

lemma round_half_even_near: "\<bar>of_int (round_half_even y) - y\<bar> \<le> 1 / 2"
proof -
  have "of_int \<lfloor>y\<rfloor> \<le> y" "y < of_int \<lfloor>y\<rfloor> + 1"
    by linarith+
  then show ?thesis
    by (auto simp: round_half_even_def Let_def)
qed

lemma scale_down_inv:
  "0 \<le> x \<Longrightarrow> scale_down x e = (y, e') \<Longrightarrow>
     y * 2 powi e' = x * 2 powi e \<and> 0 \<le> y \<and> y < 2 ^ 53 \<and> (x < 2 ^ 53 \<longrightarrow> y = x \<and> e' = e) \<and> (2 ^ 53 \<le> x \<longrightarrow> 2 ^ 52 \<le> y)"
proof (induction x e rule: scale_down.induct)
  case (1 x e)
  show ?case
  proof (cases "2 ^ 53 \<le> x")
    case False
    with 1(2,3) show ?thesis
      by (simp add: scale_down_stop)
  next
    case True
    with 1(3) have s: "scale_down (x / 2) (e + 1) = (y, e')"
      by (simp add: scale_down_step)
    from 1(2) have "0 \<le> x / 2" by simp
    from 1(1) [OF True this s]
    have ih: "y * 2 powi e' = x / 2 * 2 powi (e + 1)" "0 \<le> y" "y < 2 ^ 53"
      "x / 2 < 2 ^ 53 \<longrightarrow> y = x / 2 \<and> e' = e + 1" "2 ^ 53 \<le> x / 2 \<longrightarrow> 2 ^ 52 \<le> y"
      by simp_all
    have "x / 2 * 2 powi (e + 1) = x * 2 powi e"
      by (simp add: power_int_add)
    moreover from True ih(4,5) have "2 ^ 52 \<le> y"
      by (cases "x / 2 < 2 ^ 53") auto
    ultimately show ?thesis
      using ih True by simp
  qed
qed

lemma scale_up_inv:
  "0 \<le> x \<Longrightarrow> x < 2 ^ 53 \<Longrightarrow> scale_up x e = (z, e') \<Longrightarrow>
     z * 2 powi e' = x * 2 powi e \<and> 0 \<le> z \<and> z < 2 ^ 53 \<and> (2 ^ 52 \<le> z \<or> e' \<le> - 1074)"
proof (induction x e rule: scale_up.induct)
  case (1 x e)
  show ?case
  proof (cases "x < 2 ^ 52 \<and> - 1074 < e")
    case False
    then have "scale_up x e = (x, e)"
      by (subst scale_up.simps) auto
    with 1(2,3,4) False show ?thesis
      by auto
  next
    case True
    with 1(4) have s: "scale_up (2 * x) (e - 1) = (z, e')"
      by (simp add: scale_up_step)
    from 1(2) True have "0 \<le> 2 * x" "2 * x < 2 ^ 53" by simp_all
    from 1(1) [OF True this s]
    have ih: "z * 2 powi e' = 2 * x * 2 powi (e - 1)" "0 \<le> z" "z < 2 ^ 53"
      "2 ^ 52 \<le> z \<or> e' \<le> - 1074"
      by simp_all
    have "2 * x * 2 powi (e - 1) = x * 2 powi e"
      by (simp add: power_int_diff)
    with ih show ?thesis by simp
  qed
qed

lemma round_half_even_nonneg: "0 \<le> y \<Longrightarrow> 0 \<le> round_half_even y"
  by (auto simp: round_half_even_def Let_def)

lemma float64_nonneg:
  assumes "0 \<le> x"
  shows "0 \<le> float64 x"
proof -
  obtain y e where d: "scale_down \<bar>x\<bar> 0 = (y, e)" by force
  obtain z e' where u: "scale_up y e = (z, e')" by force
  from scale_down_inv [OF _ d] have y: "0 \<le> y" "y < 2 ^ 53" by simp_all
  from scale_up_inv [OF y u] have "0 \<le> z" by simp
  then have "0 \<le> round_half_even z" by (rule round_half_even_nonneg)
  then have "0 \<le> sgn x * of_int (round_half_even z) * 2 powi e'"
    using assms by (simp add: sgn_real_def)
  then show ?thesis
    unfolding float64_def d u Let_def prod.case .
qed

lemma float64_error:
  "\<bar>float64 x - x\<bar> \<le> max (\<bar>x\<bar> / 2 ^ 53) (2 powi (- 1075))"
proof -
  obtain y e where d: "scale_down \<bar>x\<bar> 0 = (y, e)" by force
  obtain z e' where u: "scale_up y e = (z, e')" by force
  from scale_down_inv [OF _ d] have y: "0 \<le> y" "y < 2 ^ 53" "y * 2 powi e = \<bar>x\<bar>"
    by simp_all
  from scale_up_inv [OF y(1,2) u] have z: "z * 2 powi e' = \<bar>x\<bar>" "0 \<le> z"
    "2 ^ 52 \<le> z \<or> e' \<le> - 1074"
    using y(3) by simp_all
  have "float64 x = sgn x * of_int (round_half_even z) * 2 powi e'"
    unfolding float64_def d u Let_def prod.case ..
  then have f: "float64 x = sgn x * (of_int (round_half_even z) * 2 powi e')"
    by simp
  have "x = sgn x * \<bar>x\<bar>"
    by (simp add: sgn_real_def)
  with z(1) have "x = sgn x * (z * 2 powi e')" by simp
  with f have "float64 x - x = sgn x * ((of_int (round_half_even z) - z) * 2 powi e')"
    by (simp add: algebra_simps)
  then have "\<bar>float64 x - x\<bar> = \<bar>sgn x\<bar> * (\<bar>of_int (round_half_even z) - z\<bar> * 2 powi e')"
    by (simp add: abs_mult)
  also have "\<dots> \<le> 1 * (1 / 2 * 2 powi e')"
    by (intro mult_mono round_half_even_near) (simp_all add: sgn_real_def)
  finally have b: "\<bar>float64 x - x\<bar> \<le> 2 powi e' / 2" by simp
  from z(3) show ?thesis
  proof
    assume "2 ^ 52 \<le> z"
    then have "2 ^ 52 * 2 powi e' \<le> z * 2 powi e'"
      by (intro mult_right_mono) simp_all
    with z(1) have "2 powi e' / 2 \<le> \<bar>x\<bar> / 2 ^ 53" by simp
    with b have "\<bar>float64 x - x\<bar> \<le> \<bar>x\<bar> / 2 ^ 53" by linarith
    then show ?thesis by (rule max.coboundedI1)
  next
    assume "e' \<le> - 1074"
    then have "(2::real) powi e' \<le> 2 powi (- 1074)"
      by (intro power_int_increasing) simp_all
    then have "(2::real) powi e' / 2 \<le> 2 powi (- 1074) / 2"
      by simp
    also have "(2::real) powi (- 1074) / 2 = 2 powi (- 1074 - 1)"
      by (subst power_int_diff) simp_all
    finally have "2 powi e' / (2::real) \<le> 2 powi (- 1075)" by simp
    with b have "\<bar>float64 x - x\<bar> \<le> 2 powi (- 1075)" by linarith
    then show ?thesis by (rule max.coboundedI2)
  qed
qed

lemma percentage_error:
  assumes "k \<le> n" "0 < n"
  shows "\<bar>float64 (float64 (real k / real n) * 100) - real k / real n * 100\<bar> \<le> 1 / 2 ^ 45"
proof -
  let ?q = "real k / real n"
  have small: "(2::real) powi (- 1075) \<le> 1 / 2 ^ 53"
  proof -
    have "(2::real) powi (- 1075) \<le> 2 powi (- 53)"
      by (intro power_int_increasing) simp_all
    then show ?thesis by (simp add: power_int_minus field_simps)
  qed
  from assms have q: "0 \<le> ?q" "?q \<le> 1" by simp_all
  then have "\<bar>?q\<bar> / 2 ^ 53 \<le> 1 / 2 ^ 53" by (simp add: field_simps)
  with float64_error [of ?q] small have e1: "\<bar>float64 ?q - ?q\<bar> \<le> 1 / 2 ^ 53"
    by linarith
  with q have r: "0 \<le> float64 ?q" "float64 ?q \<le> 1 + 1 / 2 ^ 53"
    using float64_nonneg [of ?q] by linarith+
  then have "\<bar>float64 ?q * 100\<bar> / 2 ^ 53 \<le> 128 / 2 ^ 53"
    by (simp add: field_simps)
  with float64_error [of "float64 ?q * 100"] small
  have e2: "\<bar>float64 (float64 ?q * 100) - float64 ?q * 100\<bar> \<le> 128 / 2 ^ 53"
    by linarith
  have h: "\<bar>a * 100 - b * 100\<bar> = \<bar>a - b\<bar> * 100" for a b :: real
  proof -
    have "a * 100 - b * 100 = (a - b) * 100"
      by (simp add: algebra_simps)
    then show ?thesis
      by (simp only: abs_mult abs_numeral)
  qed
  from e1 h [of "float64 ?q" ?q] have "\<bar>float64 ?q * 100 - ?q * 100\<bar> \<le> 100 / 2 ^ 53"
    by linarith
  with e2 have "\<bar>float64 (float64 ?q * 100) - ?q * 100\<bar> \<le> 228 / 2 ^ 53"
    by linarith
  then show ?thesis by simp
qed

lemma data_summary_lines:
  assumes "column df risk_col = Inr col" "total_revenue df = Inr t"
    "avg_strategic_importance df = Inr a"
  shows "drop 4 (data_summary fs df) = risk_distribution fs (len_df df) (value_counts col)"
  using assms by (simp add: data_summary_def high_risk_count_def)

lemma demo_risk_column:
  "column demo_clean risk_col =
     Inr [CStr ''R'', CStr ''A'', CStr ''G'', CStr ''A'', CStr ''G'', CStr ''A'', CStr ''R'',
          CStr ''A'', CStr ''R'', CStr ''A'', CStr ''A'', CStr ''G'', CStr ''G'']"
  by (simp add: column_def demo_clean_def demo_raw_def col_names update_conv')

lemma demo_value_counts:
  "value_counts [CStr ''R'', CStr ''A'', CStr ''G'', CStr ''A'', CStr ''G'', CStr ''A'', CStr ''R'',
          CStr ''A'', CStr ''R'', CStr ''A'', CStr ''A'', CStr ''G'', CStr ''G''] =
   [(CStr ''A'', 6), (CStr ''G'', 4), (CStr ''R'', 3)]"
  by (simp add: value_counts_def)

lemma demo_avg: "avg_strategic_importance demo_clean = Inr (Some (float64 (40 / 13)))"
  by (simp add: avg_strategic_importance_def column_def demo_clean_def demo_raw_def col_names
      update_conv' cell_num_def)

lemma demo_percentages:
  "fmt_1f (float64 (float64 (real 6 / real 13) * 100)) = ''46.2''"
  "fmt_1f (float64 (float64 (real 4 / real 13) * 100)) = ''30.8''"
  "fmt_1f (float64 (float64 (real 3 / real 13) * 100)) = ''23.1''"
  by (simp_all add: float64_eval fmt_1f_def str_eval)

lemma binary_percentage: "fmt_1f (float64 (float64 (real 23 / real 80) * 100)) = ''28.7''"
  by (simp add: float64_eval fmt_1f_def str_eval)

text \<open>
  Claim C8. The risk distribution lists exactly the risk codes that occur in the data,
  each once and with its number of occurrences, which is never zero. For a table of
  \<open>n > 0\<close> rows each entry is written as the bullet, the label of the code (the code
  itself when it has none), a colon, the count, the word clients and, in parentheses,
  the percentage in the format \<open>.1f\<close> with a percent sign. The percentage is the float
  \<open>(count / n) * 100\<close>: it is not negative and differs from the exact percentage by at
  most \<open>2^-45\<close>; the format writes digits, a point and one digit, for the tenth nearest
  to the float. On the page these lines follow the four metrics.
\<close>

theorem risk_distribution_lists_present_codes:
  "set (map fst (value_counts col)) = set col
   \<and> distinct (map fst (value_counts col))
   \<and> (\<forall>rc \<in> set (value_counts col). snd rc = count_list col (fst rc) \<and> 0 < snd rc)
   \<and> (0 < n \<longrightarrow>
        risk_distribution fs n rcs =
          map (\<lambda>rc. StWrite (bullet @
                 (case map_of risk_labels (astype_str fs (fst rc)) of
                    None \<Rightarrow> astype_str fs (fst rc) | Some l \<Rightarrow> l) @
                 '': '' @ str_nat (snd rc) @ '' clients ('' @
                 fmt_1f (float64 (float64 (real (snd rc) / real n) * 100)) @ ''%)'')) rcs)
   \<and> (0 \<le> x \<longrightarrow>
        (\<exists>ds d. fmt_1f x = ds @ ''.'' @ [d] \<and> ds \<noteq> [] \<and> list_all is_digit ds \<and> is_digit d))
   \<and> \<bar>of_int (round_half_even (x * 10)) - x * 10\<bar> \<le> 1 / 2
   \<and> 0 \<le> float64 (float64 (real k / real n) * 100)
   \<and> (k \<le> n \<and> 0 < n \<longrightarrow>
        \<bar>float64 (float64 (real k / real n) * 100) - real k / real n * 100\<bar> \<le> 1 / 2 ^ 45)
   \<and> (column df risk_col = Inr col \<and> total_revenue df = Inr t
        \<and> avg_strategic_importance df = Inr a \<longrightarrow>
        drop 4 (data_summary fs df) = risk_distribution fs (len_df df) (value_counts col))"
proof (intro conjI impI ballI)
  show "set (map fst (value_counts col)) = set col"
    by (rule value_counts_keys)
  show "distinct (map fst (value_counts col))"
    by (rule value_counts_keys)
  show "\<bar>of_int (round_half_even (x * 10)) - x * 10\<bar> \<le> 1 / 2"
    by (rule round_half_even_near)
  show "0 \<le> float64 (float64 (real k / real n) * 100)"
    by (intro float64_nonneg mult_nonneg_nonneg) simp_all
next
  assume "k \<le> n \<and> 0 < n"
  then show "\<bar>float64 (float64 (real k / real n) * 100) - real k / real n * 100\<bar> \<le> 1 / 2 ^ 45"
    by (intro percentage_error) simp_all
next
  fix rc
  assume rc: "rc \<in> set (value_counts col)"
  from value_counts_counts [OF rc] show "snd rc = count_list col (fst rc)"
    by simp
  from value_counts_counts [OF rc] show "0 < snd rc"
    by simp
next
  assume "0 < n"
  then show "risk_distribution fs n rcs =
          map (\<lambda>rc. StWrite (bullet @
                 (case map_of risk_labels (astype_str fs (fst rc)) of
                    None \<Rightarrow> astype_str fs (fst rc) | Some l \<Rightarrow> l) @
                 '': '' @ str_nat (snd rc) @ '' clients ('' @
                 fmt_1f (float64 (float64 (real (snd rc) / real n) * 100)) @ ''%)'')) rcs"
    by (rule risk_distribution_lines)
next
  assume "0 \<le> x"
  then show "\<exists>ds d. fmt_1f x = ds @ ''.'' @ [d] \<and> ds \<noteq> [] \<and> list_all is_digit ds \<and> is_digit d"
    by (rule fmt_1f_shape)
next
  assume "column df risk_col = Inr col \<and> total_revenue df = Inr t
        \<and> avg_strategic_importance df = Inr a"
  then show "drop 4 (data_summary fs df) = risk_distribution fs (len_df df) (value_counts col)"
    by (intro data_summary_lines) simp_all
qed

theorem risk_distribution_lists_present_codes_witness:
  "column demo_clean risk_col =
     Inr [CStr ''R'', CStr ''A'', CStr ''G'', CStr ''A'', CStr ''G'', CStr ''A'', CStr ''R'',
          CStr ''A'', CStr ''R'', CStr ''A'', CStr ''A'', CStr ''G'', CStr ''G'']
   \<and> total_revenue demo_clean = Inr 709000
   \<and> avg_strategic_importance demo_clean = Inr (Some (float64 (40 / 13)))
   \<and> (0::nat) < 13
   \<and> drop 4 (data_summary str_float_integral demo_clean) =
       [StWrite (bullet @ ''Amber (Medium Risk): 6 clients (46.2%)''),
        StWrite (bullet @ ''Green (Low Risk): 4 clients (30.8%)''),
        StWrite (bullet @ ''Red (High Risk): 3 clients (23.1%)'')]
   \<and> (0::nat) < 80
   \<and> risk_distribution str_float_integral 80 [(CStr ''R'', 23), (CStr ''X'', 57)] =
       [StWrite (bullet @ ''Red (High Risk): 23 clients (28.7%)''),
        StWrite (bullet @ ''X: 57 clients (71.2%)'')]"
proof -
  let ?col = "[CStr ''R'', CStr ''A'', CStr ''G'', CStr ''A'', CStr ''G'', CStr ''A'', CStr ''R'',
          CStr ''A'', CStr ''R'', CStr ''A'', CStr ''A'', CStr ''G'', CStr ''G'']"
  note t = risk_distribution_lists_present_codes
    [of ?col 13 str_float_integral "value_counts ?col" 0 0 demo_clean 709000
      "Some (float64 (40 / 13))"]
  from t demo_risk_column demo_revenue demo_avg
  have "drop 4 (data_summary str_float_integral demo_clean) =
      risk_distribution str_float_integral (len_df demo_clean) (value_counts ?col)"
    by blast
  moreover from t have "risk_distribution str_float_integral 13 (value_counts ?col) =
          map (\<lambda>rc. StWrite (bullet @
                 (case map_of risk_labels (astype_str str_float_integral (fst rc)) of
                    None \<Rightarrow> astype_str str_float_integral (fst rc) | Some l \<Rightarrow> l) @
                 '': '' @ str_nat (snd rc) @ '' clients ('' @
                 fmt_1f (float64 (float64 (real (snd rc) / real 13) * 100)) @ ''%)''))
            (value_counts ?col)"
    by simp
  ultimately have demo: "drop 4 (data_summary str_float_integral demo_clean) =
       [StWrite (bullet @ ''Amber (Medium Risk): 6 clients (46.2%)''),
        StWrite (bullet @ ''Green (Low Risk): 4 clients (30.8%)''),
        StWrite (bullet @ ''Red (High Risk): 3 clients (23.1%)'')]"
    using demo_percentages
    by (simp add: demo_len demo_value_counts risk_labels_def str_eval)
  note u = risk_distribution_lists_present_codes
    [of ?col 80 str_float_integral "[(CStr ''R'', 23), (CStr ''X'', 57)]" 0 0 demo_clean 709000
      "Some (float64 (40 / 13))"]
  from u have "risk_distribution str_float_integral 80 [(CStr ''R'', 23), (CStr ''X'', 57)] =
          map (\<lambda>rc. StWrite (bullet @
                 (case map_of risk_labels (astype_str str_float_integral (fst rc)) of
                    None \<Rightarrow> astype_str str_float_integral (fst rc) | Some l \<Rightarrow> l) @
                 '': '' @ str_nat (snd rc) @ '' clients ('' @
                 fmt_1f (float64 (float64 (real (snd rc) / real 80) * 100)) @ ''%)''))
            [(CStr ''R'', 23), (CStr ''X'', 57)]"
    by simp
  moreover have "fmt_1f (float64 (float64 (real 57 / real 80) * 100)) = ''71.2''"
    by (simp add: float64_eval fmt_1f_def str_eval)
  ultimately have other: "risk_distribution str_float_integral 80 [(CStr ''R'', 23), (CStr ''X'', 57)] =
       [StWrite (bullet @ ''Red (High Risk): 23 clients (28.7%)''),
        StWrite (bullet @ ''X: 57 clients (71.2%)'')]"
    using binary_percentage
    by (simp add: risk_labels_def str_eval)
  from demo other demo_risk_column demo_revenue demo_avg show ?thesis
    by simp
qed

section \<open>Cells that are not numbers\<close>

lemma series_astype_float_fails:
  assumes "\<exists>s \<in> set ss. pf s = None"
  shows "\<exists>s. series_astype_float pf ss = Inl (float_error s) \<and> s \<in> set ss \<and> pf s = None"
  using assms
proof (induction ss)
  case Nil
  then show ?case by simp
next
  case (Cons a ss)
  show ?case
  proof (cases "pf a")
    case None
    then show ?thesis by auto
  next
    case (Some x)
    with Cons.prems have "\<exists>s \<in> set ss. pf s = None" by auto
    from Cons.IH [OF this] obtain s where
      "series_astype_float pf ss = Inl (float_error s)" "s \<in> set ss" "pf s = None"
      by blast
    with Some show ?thesis by auto
  qed
qed

lemma clean_fails:
  assumes "map_of df pct_col = Some col"
    and "\<exists>c \<in> set col. pf (str_replace ''%'' '''' (astype_str fs c)) = None"
  shows "\<exists>s. clean_percentage_column pf fs df = Inl (float_error s) \<and> pf s = None"
proof -
  from assms(2) have "\<exists>s \<in> set (map (str_replace ''%'' '''') (map (astype_str fs) col)). pf s = None"
    by auto
  from series_astype_float_fails [OF this] assms(1) show ?thesis
    by (auto simp: clean_percentage_column_def)
qed

lemma clean_reads_cells:
  assumes "clean_percentage_column pf fs df = Inr df'" and "map_of df pct_col = Some col"
  shows "\<exists>xs. map_of df' pct_col = Some (map CFloat xs)
     \<and> map (\<lambda>c. pf (str_replace ''%'' '''' (astype_str fs c))) col = map Some xs"
proof -
  from assms obtain col' where
    col': "series_astype_float pf (map (str_replace ''%'' '''') (map (astype_str fs) col)) = Inr col'"
    and df': "df' = AList.update pct_col col' df"
    by (auto simp: clean_percentage_column_def split: sum.splits)
  from series_astype_float_floats [OF col'] obtain xs where
    "col' = map CFloat xs"
    "map pf (map (str_replace ''%'' '''') (map (astype_str fs) col)) = map Some xs"
    by blast
  with df' show ?thesis
    by (auto simp: update_conv' comp_def)
qed

lemma those_fails: "\<exists>x \<in> set xs. f x = None \<Longrightarrow> those (map f xs) = None"
  by (induction xs) (auto split: option.splits)

lemma from_file_page:
  "main pf fs (from_file df) =
     StInfo ''Upload your own CSV file or provide a URL to load custom data.'' #
     (case clean_percentage_column pf fs df of
        Inl e \<Rightarrow> [StErrorWith ''Error loading data from file: '' e, StInfo upload_prompt]
      | Inr df' \<Rightarrow> validate_and_display fs UserData (Some df'))"
  by (simp add: main_def from_file_def load_data_from_file_def validate_and_display_def
      split: sum.splits)

lemma from_url_page:
  "main pf fs (from_url df) =
     StInfo ''Upload your own CSV file or provide a URL to load custom data.'' #
     (case clean_percentage_column pf fs df of
        Inl e \<Rightarrow> [StErrorWith ''Error loading data from URL: '' e, StInfo upload_prompt]
      | Inr df' \<Rightarrow> validate_and_display fs UserData (Some df'))"
  by (simp add: main_def from_url_def load_data_from_url_def validate_and_display_def
      split: sum.splits)

lemma clean_keeps_column:
  assumes "clean_percentage_column pf fs df = Inr df'" and "c \<noteq> pct_col"
  shows "column df' c = column df c"
  using assms
  by (auto simp: clean_percentage_column_def column_def update_conv'
      split: option.splits sum.splits)

lemma bad_revenue_display:
  assumes "column df revenue_col = Inr col" and "\<exists>c \<in> set col. cell_num c = None"
  shows "list_ex is_error_event (validate_and_display fs m (Some df))
     \<and> (\<forall>v. StMetric ''Total Revenue'' v \<notin> set (validate_and_display fs m (Some df)))"
proof -
  from assms have t: "total_revenue df =
      Inl (ValueError ''Unknown format code f for object of type str'')"
    by (simp add: total_revenue_def those_fails)
  show ?thesis
  proof (cases "missing_columns df = []")
    case False
    then show ?thesis
      by (simp add: validate_and_display_def validate_data_def)
  next
    case True
    then show ?thesis
      by (cases "create_scatter_plot df")
        (simp_all add: validate_and_display_def validate_data_def data_summary_def t)
  qed
qed

lemma bad_importance_display:
  assumes "column df importance_col = Inr col" and "\<exists>c \<in> set col. cell_num c = None"
  shows "list_ex is_error_event (validate_and_display fs m (Some df))
     \<and> (\<forall>v. StMetric ''Avg Strategic Importance'' v \<notin> set (validate_and_display fs m (Some df)))"
proof -
  from assms(2) have "col \<noteq> []" by auto
  with assms have a: "avg_strategic_importance df =
      Inl (TypeError ''Could not convert string to numeric'')"
    by (simp add: avg_strategic_importance_def those_fails)
  have s: "list_ex is_error_event (data_summary fs df)
     \<and> (\<forall>v. StMetric ''Avg Strategic Importance'' v \<notin> set (data_summary fs df))"
    by (cases "total_revenue df"; cases "high_risk_count df")
      (simp_all add: data_summary_def a)
  show ?thesis
  proof (cases "missing_columns df = []")
    case False
    then show ?thesis
      by (simp add: validate_and_display_def validate_data_def)
  next
    case True
    with s show ?thesis
      by (cases "create_scatter_plot df")
        (simp_all add: validate_and_display_def validate_data_def)
  qed
qed

lemma bad_cell_page:
  assumes "inp = from_file df \<or> inp = from_url df"
    and "\<And>df'. clean_percentage_column pf fs df = Inr df' \<Longrightarrow>
           list_ex is_error_event (validate_and_display fs UserData (Some df'))
           \<and> (\<forall>v. StMetric l v \<notin> set (validate_and_display fs UserData (Some df')))"
  shows "list_ex is_error_event (main pf fs inp) \<and> (\<forall>v. StMetric l v \<notin> set (main pf fs inp))"
proof (cases "clean_percentage_column pf fs df")
  case (Inl e)
  with assms(1) show ?thesis
    by (auto simp: from_file_page from_url_page)
next
  case (Inr df')
  from assms(2) [OF Inr] assms(1) Inr show ?thesis
    by (auto simp: from_file_page from_url_page)
qed

text \<open>
  Claim C5, as the code has it, for a table that a user loads from a file or from a URL.
  The loader parses one column, \<open>%_of_Total_Revenue\<close>: when a cell of it does not read
  as a number once its \<open>%\<close> are removed, the loader shows an error that names the text
  and returns no table, and the page then shows only that error and the prompt to
  upload, no chart and no summary. When the loader returns a table, it shows nothing,
  every float of the cleaned column is what \<open>float\<close> read from its cell (none is put to
  zero), and every other column is handed on as read. A cell of \<open>FY25_Revenue\<close> that
  holds a text, not a number, is met when the total is formatted, and a cell of
  \<open>Strategic_Importance_(1-5)\<close> that holds a text when the mean is taken: in both cases
  the page shows an error (the exception, if nothing earlier) and no metric of the total
  revenue, or of the average importance, is shown. \<open>Spend_Potential_(1-5)\<close> is not
  among them: no code reads it as a number.
\<close>

theorem parse_error_is_shown:
  "(map_of df pct_col = Some col
      \<and> (\<exists>c \<in> set col. pf (str_replace ''%'' '''' (astype_str fs c)) = None) \<longrightarrow>
    (\<exists>s. pf s = None
       \<and> load_data_from_file pf fs (Inr df) =
           (None, [StErrorWith ''Error loading data from file: '' (float_error s)])
       \<and> load_data_from_url pf fs (Inr df) =
           (None, [StErrorWith ''Error loading data from URL: '' (float_error s)])
       \<and> main pf fs (from_file df) =
           [StInfo ''Upload your own CSV file or provide a URL to load custom data.'',
            StErrorWith ''Error loading data from file: '' (float_error s),
            StInfo upload_prompt]
       \<and> main pf fs (from_url df) =
           [StInfo ''Upload your own CSV file or provide a URL to load custom data.'',
            StErrorWith ''Error loading data from URL: '' (float_error s),
            StInfo upload_prompt]))
   \<and> (load_data_from_file pf fs (Inr df) = (Some df', shown)
        \<and> map_of df pct_col = Some col \<longrightarrow>
      shown = []
      \<and> filter (\<lambda>p. fst p \<noteq> pct_col) df' = filter (\<lambda>p. fst p \<noteq> pct_col) df
      \<and> (\<exists>xs. map_of df' pct_col = Some (map CFloat xs)
            \<and> map (\<lambda>c. pf (str_replace ''%'' '''' (astype_str fs c))) col = map Some xs))
   \<and> (map_of df revenue_col = Some col
        \<and> (\<exists>c \<in> set col. cell_num c = None)
        \<and> (inp = from_file df \<or> inp = from_url df) \<longrightarrow>
      list_ex is_error_event (main pf fs inp)
      \<and> (\<forall>v. StMetric ''Total Revenue'' v \<notin> set (main pf fs inp)))
   \<and> (map_of df importance_col = Some col
        \<and> (\<exists>c \<in> set col. cell_num c = None)
        \<and> (inp = from_file df \<or> inp = from_url df) \<longrightarrow>
      list_ex is_error_event (main pf fs inp)
      \<and> (\<forall>v. StMetric ''Avg Strategic Importance'' v \<notin> set (main pf fs inp)))"
proof (intro conjI impI)
  assume "map_of df pct_col = Some col
      \<and> (\<exists>c \<in> set col. pf (str_replace ''%'' '''' (astype_str fs c)) = None)"
  then obtain s where s: "clean_percentage_column pf fs df = Inl (float_error s)" "pf s = None"
    using clean_fails [of df col pf fs] by blast
  have "load_data_from_file pf fs (Inr df) =
           (None, [StErrorWith ''Error loading data from file: '' (float_error s)])"
    by (simp add: load_data_from_file_def s)
  moreover have "load_data_from_url pf fs (Inr df) =
           (None, [StErrorWith ''Error loading data from URL: '' (float_error s)])"
    by (simp add: load_data_from_url_def s)
  moreover have "main pf fs (from_file df) =
           [StInfo ''Upload your own CSV file or provide a URL to load custom data.'',
            StErrorWith ''Error loading data from file: '' (float_error s),
            StInfo upload_prompt]"
    by (simp add: from_file_page s)
  moreover have "main pf fs (from_url df) =
           [StInfo ''Upload your own CSV file or provide a URL to load custom data.'',
            StErrorWith ''Error loading data from URL: '' (float_error s),
            StInfo upload_prompt]"
    by (simp add: from_url_page s)
  ultimately show "\<exists>s. pf s = None
       \<and> load_data_from_file pf fs (Inr df) =
           (None, [StErrorWith ''Error loading data from file: '' (float_error s)])
       \<and> load_data_from_url pf fs (Inr df) =
           (None, [StErrorWith ''Error loading data from URL: '' (float_error s)])
       \<and> main pf fs (from_file df) =
           [StInfo ''Upload your own CSV file or provide a URL to load custom data.'',
            StErrorWith ''Error loading data from file: '' (float_error s),
            StInfo upload_prompt]
       \<and> main pf fs (from_url df) =
           [StInfo ''Upload your own CSV file or provide a URL to load custom data.'',
            StErrorWith ''Error loading data from URL: '' (float_error s),
            StInfo upload_prompt]"
    using s(2) by blast
next
  assume a: "load_data_from_file pf fs (Inr df) = (Some df', shown)
        \<and> map_of df pct_col = Some col"
  then have c: "clean_percentage_column pf fs df = Inr df'" and sh: "shown = []"
    by (auto simp: load_data_from_file_def split: sum.splits)
  from sh show "shown = []" .
  from clean_other_columns [OF c]
  show "filter (\<lambda>p. fst p \<noteq> pct_col) df' = filter (\<lambda>p. fst p \<noteq> pct_col) df"
    by simp
  from a clean_reads_cells [OF c, of col]
  show "\<exists>xs. map_of df' pct_col = Some (map CFloat xs)
            \<and> map (\<lambda>c. pf (str_replace ''%'' '''' (astype_str fs c))) col = map Some xs"
    by simp
next
  assume a: "map_of df revenue_col = Some col
        \<and> (\<exists>c \<in> set col. cell_num c = None)
        \<and> (inp = from_file df \<or> inp = from_url df)"
  have r: "list_ex is_error_event (main pf fs inp)
      \<and> (\<forall>v. StMetric ''Total Revenue'' v \<notin> set (main pf fs inp))"
  proof (rule bad_cell_page [of inp df])
    from a show "inp = from_file df \<or> inp = from_url df" by simp
  next
    fix df'
    assume c: "clean_percentage_column pf fs df = Inr df'"
    from a have "column df revenue_col = Inr col"
      by (simp add: column_def)
    with clean_keeps_column [OF c, of revenue_col] have d: "column df' revenue_col = Inr col"
      by (simp add: col_names)
    from a have b: "\<exists>c \<in> set col. cell_num c = None"
      by blast
    show "list_ex is_error_event (validate_and_display fs UserData (Some df'))
           \<and> (\<forall>v. StMetric ''Total Revenue'' v \<notin> set (validate_and_display fs UserData (Some df')))"
      by (rule bad_revenue_display [OF d b])
  qed
  from r show "list_ex is_error_event (main pf fs inp)" by simp
  from r show "\<forall>v. StMetric ''Total Revenue'' v \<notin> set (main pf fs inp)" by simp
next
  assume a: "map_of df importance_col = Some col
        \<and> (\<exists>c \<in> set col. cell_num c = None)
        \<and> (inp = from_file df \<or> inp = from_url df)"
  have r: "list_ex is_error_event (main pf fs inp)
      \<and> (\<forall>v. StMetric ''Avg Strategic Importance'' v \<notin> set (main pf fs inp))"
  proof (rule bad_cell_page [of inp df])
    from a show "inp = from_file df \<or> inp = from_url df" by simp
  next
    fix df'
    assume c: "clean_percentage_column pf fs df = Inr df'"
    from a have "column df importance_col = Inr col"
      by (simp add: column_def)
    with clean_keeps_column [OF c, of importance_col] have d: "column df' importance_col = Inr col"
      by (simp add: col_names)
    from a have b: "\<exists>c \<in> set col. cell_num c = None"
      by blast
    show "list_ex is_error_event (validate_and_display fs UserData (Some df'))
           \<and> (\<forall>v. StMetric ''Avg Strategic Importance'' v
                  \<notin> set (validate_and_display fs UserData (Some df')))"
      by (rule bad_importance_display [OF d b])
  qed
  from r show "list_ex is_error_event (main pf fs inp)" by simp
  from r show "\<forall>v. StMetric ''Avg Strategic Importance'' v \<notin> set (main pf fs inp)" by simp
qed

lemmas page_eval =
  main_def from_file_def load_data_from_file_def clean_percentage_column_def col_names
  str_replace_pct py_float_eval validate_and_display_def validate_data_def
  missing_columns_def required_columns_def create_scatter_plot_def scatter_points_def
  hover_rows_def valid_size_def column_def risk_color_def color_map_def data_summary_def
  len_df_def total_revenue_def cell_num_def high_risk_count_def
  avg_strategic_importance_def fmt_1f_nan_def value_counts_def risk_line_eval
  risk_labels_def fmt_eval str_eval float64_eval

lemma bad_revenue_page:
  "drop 2 (main py_float str_float_integral (from_file bad_revenue_table)) =
     [StMetric ''Total Clients'' ''1'',
      Uncaught (ValueError ''Unknown format code f for object of type str'')]"
  by (simp add: bad_revenue_table_def page_eval)

lemma bad_importance_page:
  "drop 2 (main py_float str_float_integral (from_file bad_importance_table)) =
     [StMetric ''Total Clients'' ''1'',
      StMetric ''Total Revenue'' (pound @ ''1,000''),
      StMetric ''High Risk Clients'' ''0'',
      Uncaught (TypeError ''Could not convert string to numeric'')]"
  by (simp add: bad_importance_table_def page_eval)

theorem parse_error_is_shown_witness:
  "map_of bad_pct_table pct_col = Some [CStr ''25%'', CStr ''abc'']
   \<and> py_float (str_replace ''%'' '''' (astype_str str_float_integral (CStr ''abc''))) = None
   \<and> main py_float str_float_integral (from_file bad_pct_table) =
       [StInfo ''Upload your own CSV file or provide a URL to load custom data.'',
        StErrorWith ''Error loading data from file: '' (float_error ''abc''),
        StInfo upload_prompt]
   \<and> load_data_from_file py_float str_float_integral
        (Inr [(name_col, [CStr ''Acme'']), (pct_col, [CStr ''28%''])]) =
       (Some [(name_col, [CStr ''Acme'']), (pct_col, [CFloat 28])], [])
   \<and> map_of bad_revenue_table revenue_col = Some [CStr ''abc'']
   \<and> map_of bad_importance_table importance_col = Some [CStr ''abc'']
   \<and> cell_num (CStr ''abc'') = None
   \<and> list_ex is_error_event (main py_float str_float_integral (from_file bad_revenue_table))
   \<and> drop 2 (main py_float str_float_integral (from_file bad_revenue_table)) =
       [StMetric ''Total Clients'' ''1'',
        Uncaught (ValueError ''Unknown format code f for object of type str'')]
   \<and> list_ex is_error_event (main py_float str_float_integral (from_file bad_importance_table))
   \<and> drop 2 (main py_float str_float_integral (from_file bad_importance_table)) =
       [StMetric ''Total Clients'' ''1'',
        StMetric ''Total Revenue'' (pound @ ''1,000''),
        StMetric ''High Risk Clients'' ''0'',
        Uncaught (TypeError ''Could not convert string to numeric'')]"
proof -
  have m: "map_of bad_pct_table pct_col = Some [CStr ''25%'', CStr ''abc'']"
    by (simp add: bad_pct_table_def col_names)
  have n: "py_float (str_replace ''%'' '''' (astype_str str_float_integral (CStr ''abc''))) = None"
    by (simp add: str_replace_pct py_float_abc)
  have c: "clean_percentage_column py_float str_float_integral bad_pct_table =
      Inl (float_error ''abc'')"
    by (simp add: clean_percentage_column_def m str_replace_pct py_float_abc py_float_eval)
  have g: "load_data_from_file py_float str_float_integral
        (Inr [(name_col, [CStr ''Acme'']), (pct_col, [CStr ''28%''])]) =
       (Some [(name_col, [CStr ''Acme'']), (pct_col, [CFloat 28])], [])"
    by (simp add: load_data_from_file_def clean_percentage_column_def col_names
        str_replace_pct py_float_28)
  from m n have mn: "map_of bad_pct_table pct_col = Some [CStr ''25%'', CStr ''abc'']
      \<and> (\<exists>c \<in> set [CStr ''25%'', CStr ''abc''].
            py_float (str_replace ''%'' '''' (astype_str str_float_integral c)) = None)"
    by simp
  from parse_error_is_shown
    [of bad_pct_table "[CStr ''25%'', CStr ''abc'']" py_float str_float_integral,
      THEN conjunct1, THEN mp, OF mn]
  obtain s where
    "main py_float str_float_integral (from_file bad_pct_table) =
       [StInfo ''Upload your own CSV file or provide a URL to load custom data.'',
        StErrorWith ''Error loading data from file: '' (float_error s),
        StInfo upload_prompt]"
    by blast
  then have p: "main py_float str_float_integral (from_file bad_pct_table) =
       [StInfo ''Upload your own CSV file or provide a URL to load custom data.'',
        StErrorWith ''Error loading data from file: '' (float_error ''abc''),
        StInfo upload_prompt]"
    by (simp add: from_file_page c)
  have r: "map_of bad_revenue_table revenue_col = Some [CStr ''abc'']"
    by (simp add: bad_revenue_table_def col_names)
  have i: "map_of bad_importance_table importance_col = Some [CStr ''abc'']"
    by (simp add: bad_importance_table_def col_names)
  have k: "cell_num (CStr ''abc'') = None"
    by (simp add: cell_num_def)
  from r k have rk: "map_of bad_revenue_table revenue_col = Some [CStr ''abc'']
      \<and> (\<exists>c \<in> set [CStr ''abc'']. cell_num c = None)
      \<and> (from_file bad_revenue_table = from_file bad_revenue_table
          \<or> from_file bad_revenue_table = from_url bad_revenue_table)"
    by simp
  from parse_error_is_shown
    [where df = bad_revenue_table and col = "[CStr ''abc'']" and pf = py_float
      and fs = str_float_integral and inp = "from_file bad_revenue_table",
      THEN conjunct2, THEN conjunct2, THEN conjunct1, THEN mp, OF rk]
  have er: "list_ex is_error_event
      (main py_float str_float_integral (from_file bad_revenue_table))"
    by simp
  from i k have ik: "map_of bad_importance_table importance_col = Some [CStr ''abc'']
      \<and> (\<exists>c \<in> set [CStr ''abc'']. cell_num c = None)
      \<and> (from_file bad_importance_table = from_file bad_importance_table
          \<or> from_file bad_importance_table = from_url bad_importance_table)"
    by simp
  from parse_error_is_shown
    [where df = bad_importance_table and col = "[CStr ''abc'']" and pf = py_float
      and fs = str_float_integral and inp = "from_file bad_importance_table",
      THEN conjunct2, THEN conjunct2, THEN conjunct2, THEN mp, OF ik]
  have ei: "list_ex is_error_event
      (main py_float str_float_integral (from_file bad_importance_table))"
    by simp
  from m n p g r i k er ei bad_revenue_page bad_importance_page show ?thesis
    by (intro conjI)
qed

lemma bad_spend_read:
  "read_csv bad_spend_csv =
     Inr [(name_col, [CStr ''Acme'']), (importance_col, [CInt 4]), (spend_col, [CStr ''abc'']),
          (risk_col, [CStr ''G'']), (revenue_col, [CInt 1000]), (pct_col, [CStr ''100%''])]"
  by (simp add: read_csv_def bad_spend_csv_def newline_def infer_column_def py_int_eval
      py_float_def upt_rec [of _ 6] col_names)

lemma bad_spend_main:
  "main py_float str_float_integral
     \<lparr>mode = UserData, uploaded_file = Some (read_csv bad_spend_csv), csv_url = None\<rparr> =
   [StInfo ''Upload your own CSV file or provide a URL to load custom data.'',
    StPlotlyChart
      \<lparr>points = [\<lparr>pt_x = CStr ''abc'', pt_y = CInt 4, pt_size = CFloat 100, pt_risk = CStr ''G'',
                   pt_color = Some ''#00AA00''\<rparr>],
       customdata = [[CStr ''Acme'', CInt 4, CStr ''abc'', CStr ''G'', CInt 1000, CFloat 100]],
       shapes = quadrant_rects @
         [Line 0.5 0.5 5.5 0.5 ''black'' 3, Line 0.5 0.5 0.5 5.5 ''black'' 3],
       annotations = quadrant_labels @ axis_arrows_and_labels,
       ref_lines = [VLine 3 ''solid'' ''darkgray'' 2 0.7, HLine 3 ''solid'' ''darkgray'' 2 0.7],
       xaxis = \<lparr>axis_range = (0.5, 5.5), dtick = 1,
         axis_title = ''<b>SPEND POTENTIAL</b><br>(how much budget available to spend with the agency?)''\<rparr>,
       yaxis = \<lparr>axis_range = (0.5, 5.5), dtick = 1,
         axis_title = ''<b>STRATEGIC IMPORTANCE</b><br>(how important is this account to the agency?)''\<rparr>,
       title = ''<b>Client Categorisation Matrix</b>''\<rparr>,
    StMetric ''Total Clients'' ''1'',
    StMetric ''Total Revenue'' (pound @ ''1,000''),
    StMetric ''High Risk Clients'' ''0'',
    StMetric ''Avg Strategic Importance'' ''4.0'',
    StWrite (bullet @ ''Green (Low Risk): 1 clients (100.0%)'')]"
  unfolding bad_spend_read
  by (simp add: main_def load_data_from_file_def clean_percentage_column_def col_names
      str_replace_pct py_float_eval validate_and_display_def validate_data_def
      missing_columns_def required_columns_def create_scatter_plot_def scatter_points_def
      hover_rows_def valid_size_def float64_eval column_def risk_color_def color_map_def data_summary_def len_df_def total_revenue_def
      cell_num_def high_risk_count_def avg_strategic_importance_def fmt_1f_nan_def
      value_counts_def risk_line_eval risk_labels_def fmt_eval str_eval)

text \<open>
  The claim as the specification states it does not hold of the column
  \<open>Spend_Potential_(1-5)\<close>: a file whose spend potential is the text \<open>abc\<close> is loaded,
  validated, charted with that text as the x value and summarised, and no error is shown.
\<close>

theorem non_numeric_spend_counterexample:
  "py_float ''abc'' = None
   \<and> read_csv bad_spend_csv =
     Inr [(name_col, [CStr ''Acme'']), (importance_col, [CInt 4]), (spend_col, [CStr ''abc'']),
          (risk_col, [CStr ''G'']), (revenue_col, [CInt 1000]), (pct_col, [CStr ''100%''])]
   \<and> \<not> list_ex is_error_event
        (main py_float str_float_integral
           \<lparr>mode = UserData, uploaded_file = Some (read_csv bad_spend_csv), csv_url = None\<rparr>)
   \<and> (\<exists>fig. StPlotlyChart fig \<in> set
        (main py_float str_float_integral
           \<lparr>mode = UserData, uploaded_file = Some (read_csv bad_spend_csv), csv_url = None\<rparr>)
        \<and> map pt_x (points fig) = [CStr ''abc''])"
  by (simp add: py_float_abc bad_spend_read [symmetric] bad_spend_main)

end
